theory Spec2Isabelle
  imports Complex_Main
begin

section \<open>Python values and exceptions\<close>

subsection \<open>Floats\<close>

text \<open>
  A Python \<open>float\<close> is an IEEE 754 double: a finite number, one of the two infinities,
  or not a number. A finite float carries the real number it denotes. The sign of zero
  is not kept (no code modelled here can tell \<open>-0.0\<close> from \<open>0.0\<close>).
\<close>

datatype pyfloat = Fin real | PosInf | NegInf | NaN

text \<open>Rounding to the nearest integer, a tie to the even one.\<close>

definition round_even :: "real \<Rightarrow> int" where
  "round_even x =
     (let n = \<lfloor>x\<rfloor>; d = x - of_int n in
      if d < 1 / 2 then n else if 1 / 2 < d then n + 1 else if even n then n else n + 1)"

text \<open>
  The exponent of the last of the 53 bits of the double nearest to \<open>x\<close>; it is -1074
  throughout the subnormal range.
\<close>

definition ulp_exp :: "real \<Rightarrow> int" where
  "ulp_exp x = max (\<lfloor>log 2 \<bar>x\<bar>\<rfloor> - 52) (- 1074)"

text \<open>
  The double that a real number rounds to (round to nearest, ties to even): every
  arithmetic operation on floats returns the rounding of its exact result, and a float
  literal denotes the rounding of its decimal text. A result of magnitude \<open>2 ^ 1024\<close>
  or more is an infinity.
\<close>

definition round_double :: "real \<Rightarrow> pyfloat" where
  "round_double x =
     (if x = 0 then Fin 0
      else let e = ulp_exp x; y = of_int (round_even (x / 2 powi e)) * 2 powi e in
           if 2 ^ 1024 \<le> \<bar>y\<bar> then (if 0 < x then PosInf else NegInf) else Fin y)"

text \<open>\<open>a * b\<close>, \<open>a + b\<close>, \<open>-a\<close>, \<open>a - b\<close> and \<open>a < b\<close> on floats.\<close>

fun fl_mul :: "pyfloat \<Rightarrow> pyfloat \<Rightarrow> pyfloat" where
  "fl_mul (Fin x) (Fin y) = round_double (x * y)"
| "fl_mul NaN b = NaN"
| "fl_mul a NaN = NaN"
| "fl_mul (Fin x) b = (if x = 0 then NaN else if (0 < x) = (b = PosInf) then PosInf else NegInf)"
| "fl_mul a (Fin y) = (if y = 0 then NaN else if (0 < y) = (a = PosInf) then PosInf else NegInf)"
| "fl_mul a b = (if a = b then PosInf else NegInf)"

fun fl_add :: "pyfloat \<Rightarrow> pyfloat \<Rightarrow> pyfloat" where
  "fl_add (Fin x) (Fin y) = round_double (x + y)"
| "fl_add NaN b = NaN"
| "fl_add a NaN = NaN"
| "fl_add (Fin x) b = b"
| "fl_add a (Fin y) = a"
| "fl_add a b = (if a = b then a else NaN)"

fun fl_neg :: "pyfloat \<Rightarrow> pyfloat" where
  "fl_neg (Fin x) = Fin (- x)"
| "fl_neg PosInf = NegInf"
| "fl_neg NegInf = PosInf"
| "fl_neg NaN = NaN"

definition fl_sub :: "pyfloat \<Rightarrow> pyfloat \<Rightarrow> pyfloat" where
  "fl_sub a b = fl_add a (fl_neg b)"

fun fl_less :: "pyfloat \<Rightarrow> pyfloat \<Rightarrow> bool" where
  "fl_less (Fin x) (Fin y) = (x < y)"
| "fl_less NaN b = False"
| "fl_less a NaN = False"
| "fl_less PosInf b = False"
| "fl_less a PosInf = True"
| "fl_less a NegInf = False"
| "fl_less NegInf b = True"

definition fl_le :: "pyfloat \<Rightarrow> pyfloat \<Rightarrow> bool" where
  "fl_le a b = (a \<noteq> NaN \<and> b \<noteq> NaN \<and> \<not> fl_less b a)"

subsection \<open>Values\<close>

text \<open>
  The values the modelled code handles: \<open>None\<close>, booleans, integers (Python's
  unbounded \<open>int\<close>; a numpy integer is read as one), floats, strings, lists, tuples, an
  object with named fields (\<open>PDict\<close>, used for the data holder) and opaque objects
  named by a tag (\<open>PObj\<close>: variables of a demographic model, functions). Numpy arrays
  are not part of the value universe.
\<close>

datatype pyval =
    PNone
  | PBool bool
  | PInt int
  | PFloat pyfloat
  | PStr string
  | PList "pyval list"
  | PTuple "pyval list"
  | PDict "(string \<times> pyval) list"
  | PObj string

text \<open>
  The messages of the \<open>ValueError\<close>s that \<open>SettingsStorage.__setattr__\<close> raises, one
  constructor per \<open>raise\<close> of the source, with the setting's name and, where the
  message interpolates it, the value; and the \<open>ValueError\<close>s of \<open>int\<close> on a string
  that is no integer literal and on the float that is not a number. \<open>External\<close> stands for any exception raised by code
  outside the modelled files.
\<close>

datatype vmsg =
    ShouldBeChecked string
  | MustBeInteger string pyval
  | MustBePositive string pyval
  | MustBeFloat string pyval
  | MustBeProbability string pyval
  | MustBeBoolean string pyval
  | MustBeIntList string pyval
  | PositiveElements string pyval
  | MustBeProbList string pyval
  | MustBeFloatList string pyval
  | DifferentLength string pyval string pyval
  | LengthNotPopulations string pyval
  | BadIdentifier
  | MustBeBetween1And2 string pyval
  | MustBePositiveVmin string pyval
  | BadTimeUnits string
  | NoModelFunc pyval
  | InvalidLiteral string
  | NaNToInteger

datatype exn =
    ValueError vmsg
  | TypeError
  | OverflowError
  | NameError string
  | AttributeError string
  | IndexError
  | KeyError string
  | UnboundLocalError string
  | External string

text \<open>Python's \<open>xs[i]\<close> for a non-negative index: \<open>IndexError\<close> out of range.\<close>

definition index :: "'a list \<Rightarrow> nat \<Rightarrow> exn + 'a" where
  "index xs i = (if i < length xs then Inr (xs ! i) else Inl IndexError)"

text \<open>A \<open>for\<close> loop over a list whose body may raise: the first exception ends it.\<close>

fun for_each :: "'i list \<Rightarrow> ('i \<Rightarrow> 's \<Rightarrow> exn + 's) \<Rightarrow> 's \<Rightarrow> exn + 's" where
  "for_each [] body s = Inr s"
| "for_each (i # is) body s =
     (case body i s of Inl e \<Rightarrow> Inl e | Inr s' \<Rightarrow> for_each is body s')"

text \<open>
  The number a value denotes: a bool is the integer 0 or 1. Comparisons between an
  integer and a float are exact in Python, so an integer is not rounded here.
\<close>

fun num_of :: "pyval \<Rightarrow> pyfloat option" where
  "num_of (PBool b) = Some (Fin (if b then 1 else 0))"
| "num_of (PInt i) = Some (Fin (real_of_int i))"
| "num_of (PFloat x) = Some x"
| "num_of _ = None"

text \<open>
  Python's \<open>==\<close>: numbers compare by value across \<open>bool\<close>, \<open>int\<close> and \<open>float\<close>
  (not a number equals nothing), sequences of the same kind elementwise, opaque objects
  by identity.
\<close>

fun py_eq :: "pyval \<Rightarrow> pyval \<Rightarrow> bool" and py_eq_list :: "pyval list \<Rightarrow> pyval list \<Rightarrow> bool" where
  "py_eq PNone b = (b = PNone)"
| "py_eq (PBool x) b = (num_of b = Some (Fin (if x then 1 else 0)))"
| "py_eq (PInt x) b = (num_of b = Some (Fin (real_of_int x)))"
| "py_eq (PFloat x) b = (x \<noteq> NaN \<and> num_of b = Some x)"
| "py_eq (PStr x) b = (b = PStr x)"
| "py_eq (PList xs) b = (case b of PList ys \<Rightarrow> py_eq_list xs ys | _ \<Rightarrow> False)"
| "py_eq (PTuple xs) b = (case b of PTuple ys \<Rightarrow> py_eq_list xs ys | _ \<Rightarrow> False)"
| "py_eq (PDict xs) b = (b = PDict xs)"
| "py_eq (PObj x) b = (b = PObj x)"
| "py_eq_list [] ys = (ys = [])"
| "py_eq_list (x # xs) ys = (case ys of [] \<Rightarrow> False | y # ys' \<Rightarrow> py_eq x y \<and> py_eq_list xs ys')"

text \<open>
  Whether \<open>hash(v)\<close> returns: a list has no hash, a tuple has one when its elements
  have.
\<close>

fun hashable :: "pyval \<Rightarrow> bool" where
  "hashable (PList xs) = False"
| "hashable (PTuple xs) = list_all hashable xs"
| "hashable v = True"
section \<open>The dadi engine: keyword arguments of an epoch\<close>

text \<open>
  \<open>'%d' % n\<close> for a natural number: its decimal digits.
\<close>

definition digit_char :: "nat \<Rightarrow> char" where
  "digit_char d = char_of (of_char (CHR ''0'') + d)"

fun fmt_d :: "nat \<Rightarrow> string" where
  "fmt_d n = (if n < 10 then [digit_char n] else fmt_d (n div 10) @ [digit_char (n mod 10)])"

declare fmt_d.simps [simp del]

text \<open>
  An \<open>Epoch\<close> event as \<open>DadiEngine._get_kwargs\<close> reads it: the time argument, the
  number of populations, the size arguments and the optional dynamics, migration and
  selection arguments (\<open>None\<close> when absent). Arguments are variables of the model
  (opaque objects) or fixed values.
\<close>

record epoch =
  time_arg :: pyval
  n_pop :: nat
  size_args :: "pyval list"
  dyn_args :: "pyval list option"
  mig_args :: "pyval list list option"
  sel_args :: "pyval list option"

type_synonym kwargs = "string \<rightharpoonup> pyval"

text \<open>
  \<open>d.get(k, default)\<close> on a dictionary given by its items: \<open>TypeError\<close> when the key
  has no hash, else the value of the item whose key equals \<open>k\<close>, else the default.
\<close>

definition dict_get :: "(pyval \<times> pyval) list \<Rightarrow> pyval \<Rightarrow> pyval \<Rightarrow> exn + pyval" where
  "dict_get d k dflt =
     (if \<not> hashable k then Inl TypeError
      else case find (\<lambda>(k', v). py_eq k' k) d of
             Some (k', v) \<Rightarrow> Inr v
           | None \<Rightarrow> Inr dflt)"

text \<open>The body of the first loop of \<open>_get_kwargs\<close> (lines 37 to 50), for one \<open>i\<close>.\<close>

definition size_step :: "epoch \<Rightarrow> (pyval \<times> pyval) list \<Rightarrow> nat \<Rightarrow> kwargs \<Rightarrow> exn + kwargs" where
  "size_step event var2value i ret_dict =
     (let arg_name = (if n_pop event = 1 then ''nu'' else ''nu'' @ fmt_d (i + 1)) in
      case dyn_args event of
        Some dyn \<Rightarrow>
          (case index dyn i of
             Inl e \<Rightarrow> Inl e
           | Inr dyn_arg \<Rightarrow>
               (case dict_get var2value dyn_arg dyn_arg of
                  Inl e \<Rightarrow> Inl e
                | Inr dyn_value \<Rightarrow>
                    if py_eq dyn_value (PStr ''Sud'')
                    then (case index (size_args event) i of
                            Inl e \<Rightarrow> Inl e
                          | Inr s \<Rightarrow> Inr (ret_dict(arg_name \<mapsto> s)))
                    else Inr (ret_dict(arg_name \<mapsto> PStr (''nu'' @ fmt_d (i + 1) @ ''_func'')))))
      | None \<Rightarrow>
          (case index (size_args event) i of
             Inl e \<Rightarrow> Inl e
           | Inr s \<Rightarrow> Inr (ret_dict(arg_name \<mapsto> s))))"

text \<open>The body of the inner migration loop (lines 54 to 57), for one \<open>i\<close> and \<open>j\<close>.\<close>

definition mig_step :: "pyval list list \<Rightarrow> nat \<Rightarrow> nat \<Rightarrow> kwargs \<Rightarrow> exn + kwargs" where
  "mig_step mig i j ret_dict =
     (if i = j then Inr ret_dict
      else case index mig i of
             Inl e \<Rightarrow> Inl e
           | Inr row \<Rightarrow>
               (case index row j of
                  Inl e \<Rightarrow> Inl e
                | Inr m \<Rightarrow> Inr (ret_dict(''m'' @ fmt_d (i + 1) @ fmt_d (j + 1) \<mapsto> m))))"

text \<open>
  The selection block (lines 58 to 64). Its key is built before its loop, from the
  \<open>i\<close> that the earlier loops left behind: \<open>n_pop - 1\<close> once a loop over
  \<open>range(n_pop)\<close> has run, and unbound when \<open>n_pop\<close> is 0.
\<close>

definition sel_block :: "epoch \<Rightarrow> pyval list \<Rightarrow> kwargs \<Rightarrow> exn + kwargs" where
  "sel_block event sel ret_dict =
     (if n_pop event = 1
      then for_each [0..<n_pop event]
             (\<lambda>i d. case index sel i of Inl e \<Rightarrow> Inl e | Inr s \<Rightarrow> Inr (d(''gamma'' \<mapsto> s)))
             ret_dict
      else if n_pop event = 0 then Inl (UnboundLocalError ''i'')
      else for_each [0..<n_pop event]
             (\<lambda>i d. case index sel i of
                       Inl e \<Rightarrow> Inl e
                     | Inr s \<Rightarrow> Inr (d(''gamma'' @ fmt_d ((n_pop event - 1) + 1) \<mapsto> s)))
             ret_dict)"

definition get_kwargs :: "epoch \<Rightarrow> (pyval \<times> pyval) list \<Rightarrow> exn + kwargs" where
  "get_kwargs event var2value =
     (case for_each [0..<n_pop event] (size_step event var2value)
             [''T'' \<mapsto> time_arg event] of
        Inl e \<Rightarrow> Inl e
      | Inr d1 \<Rightarrow>
          (case (case mig_args event of
                   None \<Rightarrow> Inr d1
                 | Some mig \<Rightarrow>
                     for_each [0..<n_pop event]
                       (\<lambda>i. for_each [0..<n_pop event] (mig_step mig i)) d1) of
             Inl e \<Rightarrow> Inl e
           | Inr d2 \<Rightarrow>
               (case sel_args event of
                  None \<Rightarrow> Inr d2
                | Some sel \<Rightarrow> sel_block event sel d2)))"

text \<open>
  An epoch is well formed when each argument list it carries has one entry per
  population (one row and one column per population for the migrations) and its
  dynamics arguments can be keys of a dictionary.
\<close>

definition epoch_wf :: "epoch \<Rightarrow> bool" where
  "epoch_wf event =
     (length (size_args event) = n_pop event \<and>
      (case dyn_args event of
         None \<Rightarrow> True
       | Some dyn \<Rightarrow> length dyn = n_pop event \<and> list_all hashable dyn) \<and>
      (case mig_args event of
         None \<Rightarrow> True
       | Some mig \<Rightarrow> length mig = n_pop event \<and> list_all (\<lambda>row. length row = n_pop event) mig) \<and>
      (case sel_args event of
         None \<Rightarrow> True
       | Some sel \<Rightarrow> length sel = n_pop event \<and> 0 < n_pop event))"

section \<open>The settings storage\<close>

subsection \<open>State, collaborators and the module's names\<close>

text \<open>
  The calls of \<open>warnings.warn\<close> in \<open>settings_storage.py\<close>, one constructor per call.
\<close>

datatype warning =
    PtsNotNeeded pyval
  | NoTimeForGeneration
  | DomainChanged string "pyval list"
  | SetBeforeCustomFilename string bool
  | StructureIgnored string
  | SettingRenamed string string
  | SettingDeprecated string

text \<open>
  What an assignment to a \<open>SettingsStorage\<close> can change: the attributes stored on the
  object (its \<open>__dict__\<close>), the class-level \<open>default_domain\<close> lists of the variable
  classes (process-wide state, by class name) and the warnings emitted so far. Output
  written by \<open>print\<close> is not modelled.
\<close>

record world =
  attrs :: "string \<rightharpoonup> pyval"
  default_domain :: "string \<Rightarrow> pyval list"
  warnings :: "warning list"

text \<open>
  The code that \<open>settings_storage.py\<close> calls and that is not part of the modelled
  files, taken as parameters: the attributes of the module \<open>settings\<close> (the defaults)
  and the variable class that its table \<open>P_IDS\<close> gives for the first letter of a
  parameter identifier; the helpers of \<open>utils\<close> that check directories and files; the
  constructor of the data holder; the lookup of engines and local optimizers (which
  raise on an unknown id); the execution of a custom model file, giving its
  \<open>model_func\<close> if it has one; the scan of a custom model file for parameter
  identifiers made by \<open>__getattr__\<close> (lines 388 to 414, \<open>None\<close> when the scan ends in
  one of the exceptions that the code swallows); the reading of a YAML file; and
  Python's parsing of a string by \<open>int\<close> and \<open>float\<close>.
\<close>

record env =
  settings_attr :: "string \<rightharpoonup> pyval"
  p_ids :: "string \<rightharpoonup> string"
  ensure_dir_existence :: "pyval \<Rightarrow> exn + pyval"
  ensure_file_existence :: "pyval \<Rightarrow> exn + pyval"
  check_dir_existence :: "pyval \<Rightarrow> exn + pyval"
  new_data_holder :: "pyval \<Rightarrow> pyval \<Rightarrow> pyval \<Rightarrow> pyval \<Rightarrow> pyval \<Rightarrow> exn + pyval"
  get_engine :: "pyval \<Rightarrow> exn option"
  get_local_optimizer :: "pyval \<Rightarrow> exn option"
  load_model_func :: "pyval \<Rightarrow> exn + pyval option"
  scan_identifiers :: "pyval \<Rightarrow> exn + pyval option"
  load_yaml :: "string \<Rightarrow> exn + (string \<times> pyval) list"
  int_of_str :: "string \<Rightarrow> int option"
  float_of_str :: "string \<Rightarrow> pyfloat option"

text \<open>
  The names bound at module level in \<open>settings_storage.py\<close>: by its import
  statements (lines 2 to 17), its assignments (lines 19 to 36) and its class statement.
\<close>

definition module_globals :: "string list" where
  "module_globals =
     [''os'', ''ruamel'', ''np'', ''settings'', ''SFSDataHolder'', ''get_engine'',
      ''MomentsEngine'', ''StructureDemographicModel'', ''CustomDemographicModel'',
      ''get_local_optimizer'', ''get_global_optimizer'', ''LinearConstrainDemographics'',
      ''LinearConstrain'', ''ensure_dir_existence'', ''ensure_file_existence'',
      ''check_dir_existence'', ''custom_generator'', ''warnings'', ''importlib'', ''sys'',
      ''copy'', ''HOME_DIR'', ''PARAM_TEMPLATE'', ''EXTRA_PARAM_TEMPLATE'',
      ''CHANGED_IDENTIFIERS'', ''DEPRECATED_IDENTIFIERS'', ''SettingsStorage'']"

text \<open>The names of Python's built-in functions, constants and exception classes.\<close>

definition python_builtins :: "string list" where
  "python_builtins =
     [''abs'', ''all'', ''any'', ''ascii'', ''bin'', ''bool'', ''breakpoint'', ''bytearray'',
      ''bytes'', ''callable'', ''chr'', ''classmethod'', ''compile'', ''complex'', ''delattr'',
      ''dict'', ''dir'', ''divmod'', ''enumerate'', ''eval'', ''exec'', ''filter'', ''float'',
      ''format'', ''frozenset'', ''getattr'', ''globals'', ''hasattr'', ''hash'', ''help'',
      ''hex'', ''id'', ''input'', ''int'', ''isinstance'', ''issubclass'', ''iter'', ''len'',
      ''list'', ''locals'', ''map'', ''max'', ''memoryview'', ''min'', ''next'', ''object'',
      ''oct'', ''open'', ''ord'', ''pow'', ''print'', ''property'', ''range'', ''repr'',
      ''reversed'', ''round'', ''set'', ''setattr'', ''slice'', ''sorted'', ''staticmethod'',
      ''str'', ''sum'', ''super'', ''tuple'', ''type'', ''vars'', ''zip'', ''__import__'',
      ''None'', ''True'', ''False'', ''NotImplemented'', ''Ellipsis'', ''__debug__'',
      ''BaseException'', ''Exception'', ''ArithmeticError'', ''AssertionError'',
      ''AttributeError'', ''EOFError'', ''ImportError'', ''IndexError'', ''KeyError'',
      ''KeyboardInterrupt'', ''LookupError'', ''MemoryError'', ''ModuleNotFoundError'',
      ''NameError'', ''NotImplementedError'', ''OSError'', ''IOError'', ''OverflowError'',
      ''RecursionError'', ''RuntimeError'', ''StopIteration'', ''SyntaxError'',
      ''SystemExit'', ''TypeError'', ''UnboundLocalError'', ''UnicodeError'', ''ValueError'',
      ''ZeroDivisionError'', ''Warning'', ''UserWarning'', ''DeprecationWarning'',
      ''FileNotFoundError'', ''FileExistsError'', ''PermissionError'']"

text \<open>
  The evaluation of a name inside a function of the module: a local variable, else a
  module-level name, else a builtin, else \<open>NameError\<close>.
\<close>

definition resolve_name :: "string list \<Rightarrow> string \<Rightarrow> exn option" where
  "resolve_name locals nm =
     (if nm \<in> set locals \<or> nm \<in> set module_globals \<or> nm \<in> set python_builtins
      then None else Some (NameError nm))"

subsection \<open>Operations of Python on values\<close>

definition is_int :: "pyval \<Rightarrow> bool" where
  "is_int v = (case v of PBool _ \<Rightarrow> True | PInt _ \<Rightarrow> True | _ \<Rightarrow> False)"

definition is_float :: "pyval \<Rightarrow> bool" where
  "is_float v = (case v of PFloat _ \<Rightarrow> True | _ \<Rightarrow> False)"

definition is_bool :: "pyval \<Rightarrow> bool" where
  "is_bool v = (case v of PBool _ \<Rightarrow> True | _ \<Rightarrow> False)"

definition is_str :: "pyval \<Rightarrow> bool" where
  "is_str v = (case v of PStr _ \<Rightarrow> True | _ \<Rightarrow> False)"

text \<open>\<open>isinstance(value, (list, tuple, np.ndarray))\<close>, and the elements of such a value.\<close>

definition is_seq :: "pyval \<Rightarrow> bool" where
  "is_seq v = (case v of PList _ \<Rightarrow> True | PTuple _ \<Rightarrow> True | _ \<Rightarrow> False)"

definition elems :: "pyval \<Rightarrow> pyval list" where
  "elems v = (case v of PList xs \<Rightarrow> xs | PTuple xs \<Rightarrow> xs | _ \<Rightarrow> [])"

text \<open>The values that a \<open>for\<close> loop over a value visits; a string gives its characters.\<close>

definition iter_vals :: "pyval \<Rightarrow> exn + pyval list" where
  "iter_vals v =
     (case v of
        PList xs \<Rightarrow> Inr xs
      | PTuple xs \<Rightarrow> Inr xs
      | PStr s \<Rightarrow> Inr (map (\<lambda>c. PStr [c]) s)
      | _ \<Rightarrow> Inl TypeError)"

text \<open>
  An order comparison of a value with a number (\<open>value < 0\<close>, \<open>value > 1\<close>): on a
  number it compares, on anything else Python 3 raises \<open>TypeError\<close>.
\<close>

definition py_cmp :: "(pyfloat \<Rightarrow> bool) \<Rightarrow> pyval \<Rightarrow> exn + bool" where
  "py_cmp p v = (case num_of v of Some x \<Rightarrow> Inr (p x) | None \<Rightarrow> Inl TypeError)"

definition py_len :: "pyval \<Rightarrow> exn + nat" where
  "py_len v =
     (case v of
        PStr s \<Rightarrow> Inr (length s)
      | PList xs \<Rightarrow> Inr (length xs)
      | PTuple xs \<Rightarrow> Inr (length xs)
      | PDict xs \<Rightarrow> Inr (length xs)
      | _ \<Rightarrow> Inl TypeError)"

text \<open>\<open>s.split(',')\<close>: the pieces between the separators, \<open>['']\<close> for the empty string.\<close>

fun split_on :: "char \<Rightarrow> string \<Rightarrow> string list" where
  "split_on c [] = [[]]"
| "split_on c (x # xs) =
     (if x = c then [] # split_on c xs
      else (case split_on c xs of [] \<Rightarrow> [[x]] | p # ps \<Rightarrow> (x # p) # ps))"

definition is_space :: "char \<Rightarrow> bool" where
  "is_space c = (c \<in> set [CHR '' '', CHR 0x09, CHR 0x0A, CHR 0x0B, CHR 0x0C, CHR 0x0D])"

definition strip :: "string \<Rightarrow> string" where
  "strip s = rev (dropWhile is_space (rev (dropWhile is_space s)))"

text \<open>\<open>s.lower()\<close> on the ASCII letters.\<close>

definition lower_char :: "char \<Rightarrow> char" where
  "lower_char c =
     (let n = (of_char c :: nat) in if 65 \<le> n \<and> n \<le> 90 then char_of (n + 32) else c)"

definition lower :: "string \<Rightarrow> string" where
  "lower s = map lower_char s"

text \<open>
  The float of an integer: the double it rounds to, \<open>OverflowError\<close> when that is
  no finite number. Python converts an integer so in \<open>float(i)\<close> and before an
  operation of an integer with a float.
\<close>

definition float_of_int :: "int \<Rightarrow> exn + pyfloat" where
  "float_of_int i =
     (case round_double (real_of_int i) of Fin r \<Rightarrow> Inr (Fin r) | _ \<Rightarrow> Inl OverflowError)"

text \<open>\<open>float(x)\<close>, \<open>None\<close> where Python raises.\<close>

definition py_float :: "env \<Rightarrow> pyval \<Rightarrow> pyval option" where
  "py_float env x =
     (case x of
        PBool b \<Rightarrow> Some (PFloat (Fin (if b then 1 else 0)))
      | PInt i \<Rightarrow> (case float_of_int i of Inl e \<Rightarrow> None | Inr f \<Rightarrow> Some (PFloat f))
      | PFloat f \<Rightarrow> Some (PFloat f)
      | PStr s \<Rightarrow> map_option PFloat (float_of_str env s)
      | _ \<Rightarrow> None)"

text \<open>A list comprehension whose element conversion may raise: \<open>None\<close> at the first failure.\<close>

fun map_opt :: "('a \<Rightarrow> 'b option) \<Rightarrow> 'a list \<Rightarrow> 'b list option" where
  "map_opt f [] = Some []"
| "map_opt f (x # xs) =
     (case f x of
        None \<Rightarrow> None
      | Some y \<Rightarrow> (case map_opt f xs of None \<Rightarrow> None | Some ys \<Rightarrow> Some (y # ys)))"

text \<open>
  \<open>x[i]\<close> for a constant index, \<open>a * b\<close>, \<open>int(x)\<close>, \<open>a + b\<close> on numbers,
  \<open>sum(xs)\<close> and \<open>1 - x\<close>. Two integers (or booleans) give an integer; with a float
  on either side the other operand is converted to a float and the result is a float; a
  sequence times an integer is repeated.
\<close>

definition py_item :: "pyval \<Rightarrow> nat \<Rightarrow> exn + pyval" where
  "py_item v i =
     (case v of
        PList xs \<Rightarrow> index xs i
      | PTuple xs \<Rightarrow> index xs i
      | PStr s \<Rightarrow> (if i < length s then Inr (PStr [s ! i]) else Inl IndexError)
      | _ \<Rightarrow> Inl TypeError)"

definition int_of :: "pyval \<Rightarrow> int option" where
  "int_of v = (case v of PBool b \<Rightarrow> Some (if b then 1 else 0) | PInt i \<Rightarrow> Some i | _ \<Rightarrow> None)"

definition repeat :: "int \<Rightarrow> 'a list \<Rightarrow> 'a list" where
  "repeat n xs = concat (replicate (nat n) xs)"

definition as_float :: "pyval \<Rightarrow> exn + pyfloat" where
  "as_float v =
     (case v of
        PFloat f \<Rightarrow> Inr f
      | PBool b \<Rightarrow> Inr (Fin (if b then 1 else 0))
      | PInt i \<Rightarrow> float_of_int i
      | _ \<Rightarrow> Inl TypeError)"

definition float_op :: "(pyfloat \<Rightarrow> pyfloat \<Rightarrow> pyfloat) \<Rightarrow> pyval \<Rightarrow> pyval \<Rightarrow> exn + pyval" where
  "float_op f a b =
     (case as_float a of
        Inl e \<Rightarrow> Inl e
      | Inr x \<Rightarrow> (case as_float b of Inl e \<Rightarrow> Inl e | Inr y \<Rightarrow> Inr (PFloat (f x y))))"

definition py_mul :: "pyval \<Rightarrow> pyval \<Rightarrow> exn + pyval" where
  "py_mul a b =
     (case (int_of a, int_of b) of
        (Some i, Some j) \<Rightarrow> Inr (PInt (i * j))
      | _ \<Rightarrow>
         (case (num_of a, num_of b) of
            (Some x, Some y) \<Rightarrow> float_op fl_mul a b
          | _ \<Rightarrow>
             (case (a, int_of b) of
                (PStr s, Some n) \<Rightarrow> Inr (PStr (repeat n s))
              | (PList xs, Some n) \<Rightarrow> Inr (PList (repeat n xs))
              | (PTuple xs, Some n) \<Rightarrow> Inr (PTuple (repeat n xs))
              | _ \<Rightarrow>
                 (case (int_of a, b) of
                    (Some n, PStr s) \<Rightarrow> Inr (PStr (repeat n s))
                  | (Some n, PList xs) \<Rightarrow> Inr (PList (repeat n xs))
                  | (Some n, PTuple xs) \<Rightarrow> Inr (PTuple (repeat n xs))
                  | _ \<Rightarrow> Inl TypeError))))"

text \<open>
  \<open>int\<close> truncates a finite float towards zero; an infinity gives \<open>OverflowError\<close>, not
  a number \<open>ValueError\<close>.
\<close>

definition trunc :: "real \<Rightarrow> int" where
  "trunc r = (if 0 \<le> r then \<lfloor>r\<rfloor> else \<lceil>r\<rceil>)"

definition py_int :: "env \<Rightarrow> pyval \<Rightarrow> exn + pyval" where
  "py_int env v =
     (case v of
        PBool b \<Rightarrow> Inr (PInt (if b then 1 else 0))
      | PInt i \<Rightarrow> Inr (PInt i)
      | PFloat (Fin r) \<Rightarrow> Inr (PInt (trunc r))
      | PFloat NaN \<Rightarrow> Inl (ValueError NaNToInteger)
      | PFloat _ \<Rightarrow> Inl OverflowError
      | PStr s \<Rightarrow>
          (case int_of_str env s of
             Some i \<Rightarrow> Inr (PInt i)
           | None \<Rightarrow> Inl (ValueError (InvalidLiteral s)))
      | _ \<Rightarrow> Inl TypeError)"

definition py_add :: "pyval \<Rightarrow> pyval \<Rightarrow> exn + pyval" where
  "py_add a b =
     (case (int_of a, int_of b) of
        (Some i, Some j) \<Rightarrow> Inr (PInt (i + j))
      | _ \<Rightarrow>
         (case (num_of a, num_of b) of
            (Some x, Some y) \<Rightarrow> float_op fl_add a b
          | _ \<Rightarrow> Inl TypeError))"

text \<open>
  \<open>sum(xs)\<close> adds from the left, starting from the integer 0 (a Python from version
  3.12 on compensates the rounding errors of a sum of floats; the plain sum is that of
  the earlier versions).
\<close>

fun sum_from :: "pyval \<Rightarrow> pyval list \<Rightarrow> exn + pyval" where
  "sum_from acc [] = Inr acc"
| "sum_from acc (x # xs) =
     (case py_add acc x of Inl e \<Rightarrow> Inl e | Inr acc' \<Rightarrow> sum_from acc' xs)"

definition py_sum :: "pyval \<Rightarrow> exn + pyval" where
  "py_sum v =
     (case v of
        PList xs \<Rightarrow> sum_from (PInt 0) xs
      | PTuple xs \<Rightarrow> sum_from (PInt 0) xs
      | PStr s \<Rightarrow> (if s = [] then Inr (PInt 0) else Inl TypeError)
      | _ \<Rightarrow> Inl TypeError)"

definition one_minus :: "pyval \<Rightarrow> exn + pyval" where
  "one_minus v =
     (case int_of v of
        Some i \<Rightarrow> Inr (PInt (1 - i))
      | None \<Rightarrow> (case v of PFloat x \<Rightarrow> Inr (PFloat (fl_sub (Fin 1) x)) | _ \<Rightarrow> Inl TypeError))"

subsection \<open>The lists of setting names in \<open>__setattr__\<close> (lines 41 to 75)\<close>

definition int_attrs :: "string list" where
  "int_attrs =
     [''stuck_generation_number'', ''sequence_length'', ''verbose'',
      ''print_models_code_every_n_iteration'', ''n_elitism'',
      ''draw_models_every_n_iteration'', ''size_of_generation'', ''number_of_repeats'',
      ''number_of_processes'', ''number_of_populations'', ''time_to_print_summary'']"

definition float_attrs :: "string list" where
  "float_attrs =
     [''theta0'', ''time_for_generation'', ''eps'', ''const_of_time_in_drawing'', ''vmin'',
      ''min_n'', ''max_n'', ''min_t'', ''max_t'', ''min_m'', ''max_m'',
      ''upper_bound_of_first_split'', ''upper_bound_of_second_split'']"

definition probs_attrs :: "string list" where
  "probs_attrs =
     [''mean_mutation_strength'', ''mean_mutation_rate'', ''p_mutation'', ''p_crossover'',
      ''p_random'']"

definition bool_attrs :: "string list" where
  "bool_attrs =
     [''outgroup'', ''linked_snp_s'', ''only_sudden'', ''no_migrations'', ''silence'',
      ''test'', ''random_n_a'', ''relative_parameters'']"

definition int_list_attrs :: "string list" where
  "int_list_attrs = [''pts'', ''initial_structure'', ''final_structure'', ''projections'']"

definition float_list_attrs :: "string list" where
  "float_list_attrs = [''lower_bound'', ''upper_bound'']"

definition probs_list_attrs :: "string list" where
  "probs_list_attrs = [''fractions'']"

definition attrs_with_equal_len :: "string list" where
  "attrs_with_equal_len =
     [''initial_structure'', ''final_structure'', ''population_labels'', ''projections'']"

definition special_attrs :: "string list" where
  "special_attrs =
     [''const_for_mutation_strength'', ''const_for_mutation_rate'', ''vmin'',
      ''parameter_identifiers'']"

definition exist_file_attrs :: "string list" where
  "exist_file_attrs = [''input_file'', ''custom_filename'']"

definition exist_dir_attrs :: "string list" where
  "exist_dir_attrs = [''directory_with_bootstrap'']"

definition empty_dir_attrs :: "string list" where
  "empty_dir_attrs = [''output_directory'']"

definition data_holder_attrs :: "string list" where
  "data_holder_attrs = [''projections'', ''outgroup'', ''population_labels'', ''sequence_length'']"

definition bounds_attrs :: "string list" where
  "bounds_attrs = [''min_n'', ''max_n'', ''min_t'', ''max_t'', ''min_m'', ''max_m'']"

definition bounds_lists :: "string list" where
  "bounds_lists = [''lower_bound'', ''upper_bound'', ''parameter_identifiers'']"

definition missed_attrs :: "string list" where
  "missed_attrs =
     [''engine'', ''local_optimizer'', ''_inner_data'', ''_bootstrap_data'', ''X_init'',
      ''Y_init'', ''model_func'', ''get_engine_args'']"

text \<open>
  The guard of lines 77 to 93. \<open>super(SettingsStorage, self).__getattr__(name)\<close> always
  raises \<open>AttributeError\<close>, since \<open>object\<close> defines no \<open>__getattr__\<close>: the flag
  \<open>super_hasattr\<close> is always false, and a name passes the guard exactly when one of
  the lists that the guard tests holds it (\<open>float_list_attrs\<close> is not tested).
\<close>

definition super_hasattr :: bool where
  "super_hasattr = False"

definition recognized :: "string \<Rightarrow> bool" where
  "recognized name =
     (\<not> (name \<notin> set int_attrs \<and> name \<notin> set float_attrs \<and> name \<notin> set probs_attrs \<and>
         name \<notin> set bool_attrs \<and> name \<notin> set attrs_with_equal_len \<and>
         name \<notin> set int_list_attrs \<and> name \<notin> set probs_list_attrs \<and>
         name \<notin> set special_attrs \<and> name \<notin> set exist_file_attrs \<and>
         name \<notin> set exist_dir_attrs \<and> name \<notin> set empty_dir_attrs \<and>
         name \<notin> set data_holder_attrs \<and> name \<notin> set bounds_attrs \<and>
         name \<notin> set missed_attrs \<and> name \<notin> set bounds_lists \<and> \<not> super_hasattr))"

subsection \<open>Reading an attribute: \<open>__getattr__\<close> (lines 369 to 436)\<close>

text \<open>
  A setter and a getter of attributes, as the two methods call each other: an assignment
  returns the exception it raised, if any, and the state it left; a read returns the
  value or the exception, and the state (a read can assign, see below).
\<close>

type_synonym setter = "world \<Rightarrow> string \<Rightarrow> pyval \<Rightarrow> exn option \<times> world"

type_synonym getter = "world \<Rightarrow> string \<Rightarrow> (exn + pyval) \<times> world"

definition store :: "string \<Rightarrow> pyval \<Rightarrow> world \<Rightarrow> world" where
  "store name v w = w\<lparr>attrs := (attrs w)(name \<mapsto> v)\<rparr>"

definition warn :: "warning \<Rightarrow> world \<Rightarrow> world" where
  "warn x w = w\<lparr>warnings := warnings w @ [x]\<rparr>"

text \<open>
  A read of an attribute for which \<open>__getattr__\<close> has no special default: the stored
  value, else the default of the module \<open>settings\<close>, else \<open>AttributeError\<close>.
\<close>

definition getattr_plain :: "env \<Rightarrow> world \<Rightarrow> string \<Rightarrow> exn + pyval" where
  "getattr_plain env w name =
     (case attrs w name of
        Some v \<Rightarrow> Inr v
      | None \<Rightarrow>
          (case settings_attr env name of
             None \<Rightarrow> Inl (AttributeError name)
           | Some v \<Rightarrow> Inr v))"

text \<open>
  Lines 380 to 383, reached when the default of \<open>initial_structure\<close> is \<open>None\<close>: one
  \<open>initial_structure_unit\<close> per population when no custom file is set and the number
  of populations is known, else \<open>None\<close>.
\<close>

definition initial_structure_default :: "env \<Rightarrow> world \<Rightarrow> exn + pyval" where
  "initial_structure_default env w =
     (case getattr_plain env w ''custom_filename'' of
        Inl e \<Rightarrow> Inl e
      | Inr cf \<Rightarrow>
          if cf = PNone then
            (case getattr_plain env w ''number_of_populations'' of
               Inl e \<Rightarrow> Inr PNone
             | Inr n \<Rightarrow>
                 (case int_of n of
                    None \<Rightarrow> Inl TypeError
                  | Some k \<Rightarrow>
                      if k \<le> 0 then Inr (PList [])
                      else (case settings_attr env ''initial_structure_unit'' of
                              None \<Rightarrow> Inl (AttributeError ''initial_structure_unit'')
                            | Some u \<Rightarrow> Inr (PList (replicate (nat k) u)))))
          else Inr PNone)"

text \<open>\<open>self.initial_structure\<close>, as line 385 reads it.\<close>

definition getattr_initial_structure :: "env \<Rightarrow> world \<Rightarrow> exn + pyval" where
  "getattr_initial_structure env w =
     (case attrs w ''initial_structure'' of
        Some v \<Rightarrow> Inr v
      | None \<Rightarrow>
          (case settings_attr env ''initial_structure'' of
             None \<Rightarrow> Inl (AttributeError ''initial_structure'')
           | Some v \<Rightarrow> if v \<noteq> PNone then Inr v else initial_structure_default env w))"

text \<open>\<open>p_id[0].lower()\<close> and \<open>val.lower()[0]\<close>: the first letter, in lower case.\<close>

definition first_lower :: "pyval \<Rightarrow> exn + string" where
  "first_lower v =
     (case v of
        PStr s \<Rightarrow> (case s of [] \<Rightarrow> Inl IndexError | c # _ \<Rightarrow> Inr [lower_char c])
      | PList xs \<Rightarrow>
          (case xs of
             [] \<Rightarrow> Inl IndexError
           | x # _ \<Rightarrow> (case x of PStr s \<Rightarrow> Inr (lower s) | _ \<Rightarrow> Inl (AttributeError ''lower'')))
      | PTuple xs \<Rightarrow>
          (case xs of
             [] \<Rightarrow> Inl IndexError
           | x # _ \<Rightarrow> (case x of PStr s \<Rightarrow> Inr (lower s) | _ \<Rightarrow> Inl (AttributeError ''lower'')))
      | _ \<Rightarrow> Inl TypeError)"

text \<open>
  Lines 428 to 433: for each parameter identifier, the lower (index 0) or upper
  (index 1) end of the default domain of the variable class that \<open>P_IDS\<close> gives for
  its first letter.
\<close>

fun bounds_of_ids :: "env \<Rightarrow> world \<Rightarrow> nat \<Rightarrow> pyval list \<Rightarrow> exn + pyval list" where
  "bounds_of_ids env w i [] = Inr []"
| "bounds_of_ids env w i (p_id # rest) =
     (case first_lower p_id of
        Inl e \<Rightarrow> Inl e
      | Inr k \<Rightarrow>
          (case p_ids env k of
             None \<Rightarrow> Inl (KeyError k)
           | Some cls \<Rightarrow>
               (case index (default_domain w cls) i of
                  Inl e \<Rightarrow> Inl e
                | Inr b \<Rightarrow>
                    (case bounds_of_ids env w i rest of
                       Inl e \<Rightarrow> Inl e
                     | Inr bs \<Rightarrow> Inr (b # bs)))))"

text \<open>
  Lines 386 to 423: the parameter identifiers found in the custom model file are
  assigned to the object and returned; a \<open>ValueError\<close> or \<open>IndexError\<close> of that
  assignment is swallowed, and \<open>None\<close> returned.
\<close>

definition identifiers_from_file :: "setter \<Rightarrow> env \<Rightarrow> world \<Rightarrow> (exn + pyval) \<times> world" where
  "identifiers_from_file S env w =
     (case getattr_plain env w ''custom_filename'' of
        Inl e \<Rightarrow> (Inl e, w)
      | Inr cf \<Rightarrow>
          if cf \<noteq> PNone then
            (case scan_identifiers env cf of
               Inl e \<Rightarrow> (Inl e, w)
             | Inr None \<Rightarrow> (Inr PNone, w)
             | Inr (Some ids) \<Rightarrow>
                 (case S w ''parameter_identifiers'' ids of
                    (None, w') \<Rightarrow> (Inr ids, w')
                  | (Some (ValueError m), w') \<Rightarrow> (Inr PNone, w')
                  | (Some IndexError, w') \<Rightarrow> (Inr PNone, w')
                  | (Some e, w') \<Rightarrow> (Inl e, w')))
          else (Inr PNone, w))"

text \<open>\<open>self.parameter_identifiers\<close>, as line 426 reads it.\<close>

definition getattr_identifiers :: "setter \<Rightarrow> env \<Rightarrow> world \<Rightarrow> (exn + pyval) \<times> world" where
  "getattr_identifiers S env w =
     (case attrs w ''parameter_identifiers'' of
        Some v \<Rightarrow> (Inr v, w)
      | None \<Rightarrow>
          (case settings_attr env ''parameter_identifiers'' of
             None \<Rightarrow> (Inl (AttributeError ''parameter_identifiers''), w)
           | Some v \<Rightarrow> if v \<noteq> PNone then (Inr v, w) else identifiers_from_file S env w))"

text \<open>Lines 424 to 435: a bound computed from the parameter identifiers, and assigned.\<close>

definition bound_from_identifiers :: "setter \<Rightarrow> env \<Rightarrow> world \<Rightarrow> string \<Rightarrow> (exn + pyval) \<times> world" where
  "bound_from_identifiers S env w name =
     (case getattr_plain env w ''custom_filename'' of
        Inl e \<Rightarrow> (Inl e, w)
      | Inr cf \<Rightarrow>
          if cf \<noteq> PNone then
            (case getattr_identifiers S env w of
               (Inl e, w1) \<Rightarrow> (Inl e, w1)
             | (Inr ids, w1) \<Rightarrow>
                 if ids \<noteq> PNone then
                   (case getattr_identifiers S env w1 of
                      (Inl e, w2) \<Rightarrow> (Inl e, w2)
                    | (Inr ids2, w2) \<Rightarrow>
                        (case iter_vals ids2 of
                           Inl e \<Rightarrow> (Inl e, w2)
                         | Inr p_id_list \<Rightarrow>
                             (case bounds_of_ids env w2 (if name = ''lower_bound'' then 0 else 1)
                                     p_id_list of
                                Inl e \<Rightarrow> (Inl e, w2)
                              | Inr bound \<Rightarrow>
                                  (case S w2 name (PList bound) of
                                     (None, w3) \<Rightarrow> (Inr (PList bound), w3)
                                   | (Some e, w3) \<Rightarrow> (Inl e, w3)))))
                 else (Inr PNone, w1))
          else (Inr PNone, w))"

text \<open>
  \<open>__getattr__\<close>, called when the object stores no attribute of that name. The
  \<open>try\<close> of line 371 always fails (\<open>object\<close> has no \<open>__getattr__\<close>).
\<close>

definition dunder_getattr :: "setter \<Rightarrow> env \<Rightarrow> world \<Rightarrow> string \<Rightarrow> (exn + pyval) \<times> world" where
  "dunder_getattr S env w name =
     (case settings_attr env name of
        None \<Rightarrow> (Inl (AttributeError name), w)
      | Some v \<Rightarrow>
          if v \<noteq> PNone then (Inr v, w)
          else if name = ''initial_structure'' then (initial_structure_default env w, w)
          else if name = ''final_structure'' then
            (case getattr_plain env w ''custom_filename'' of
               Inl e \<Rightarrow> (Inl e, w)
             | Inr cf \<Rightarrow>
                 if cf = PNone then (getattr_initial_structure env w, w) else (Inr PNone, w))
          else if name = ''parameter_identifiers'' then identifiers_from_file S env w
          else if name = ''lower_bound'' \<or> name = ''upper_bound'' then
            bound_from_identifiers S env w name
          else (Inr PNone, w))"

text \<open>\<open>getattr(self, name)\<close>: the stored attribute, else \<open>__getattr__\<close>.\<close>

definition getattr_gen :: "setter \<Rightarrow> env \<Rightarrow> getter" where
  "getattr_gen S env w name =
     (case attrs w name of
        Some v \<Rightarrow> (Inr v, w)
      | None \<Rightarrow> dunder_getattr S env w name)"

subsection \<open>Assigning an attribute: \<open>__setattr__\<close> (lines 40 to 367)\<close>

text \<open>
  The method is a sequence of blocks. Each block is modelled as a function of the state
  and of the local variable \<open>value\<close>, giving the exception raised together with the
  state it leaves behind, or the new state and the new \<open>value\<close>.
\<close>

type_synonym phase = "world \<Rightarrow> pyval \<Rightarrow> (exn \<times> world) + (world \<times> pyval)"

fun run_phases :: "phase list \<Rightarrow> phase" where
  "run_phases [] w value = Inr (w, value)"
| "run_phases (p # ps) w value =
     (case p w value of Inl e \<Rightarrow> Inl e | Inr (w', value') \<Rightarrow> run_phases ps w' value')"

text \<open>Lines 99 to 102: a structure given as one number becomes a list.\<close>

definition structure_as_list :: "string \<Rightarrow> world \<Rightarrow> pyval \<Rightarrow> world \<times> pyval" where
  "structure_as_list name w value =
     (if (name = ''initial_structure'' \<or> name = ''final_structure'') \<and> is_int value
      then (store name (PList [value]) w, PList [value])
      else (w, value))"

text \<open>Lines 106 to 115: no check when the value equals the default of \<open>settings\<close>.\<close>

definition we_check :: "env \<Rightarrow> string \<Rightarrow> pyval \<Rightarrow> bool" where
  "we_check env name value =
     (case settings_attr env name of
        None \<Rightarrow> True
      | Some default_value \<Rightarrow> \<not> py_eq default_value value)"

text \<open>Lines 119 to 123 (1.1).\<close>

definition check_int :: "string \<Rightarrow> bool \<Rightarrow> phase" where
  "check_int name chk w value =
     (if name \<in> set int_attrs \<and> chk then
        (if \<not> is_int value then Inl (ValueError (MustBeInteger name value), w)
         else (case py_cmp (\<lambda>x. fl_less x (Fin 0)) value of
                 Inl e \<Rightarrow> Inl (e, w)
               | Inr neg \<Rightarrow>
                   if neg then Inl (ValueError (MustBePositive name value), w)
                   else Inr (w, value)))
      else Inr (w, value))"

text \<open>Lines 125 to 131 (1.2).\<close>

definition check_float :: "string \<Rightarrow> bool \<Rightarrow> phase" where
  "check_float name chk w value =
     (if (name \<in> set float_attrs \<or> name \<in> set probs_attrs) \<and> chk then
        (if \<not> (is_int value \<or> is_float value) \<and> \<not> is_int value
         then Inl (ValueError (MustBeFloat name value), w)
         else if name \<in> set probs_attrs then
           (case py_cmp (\<lambda>x. fl_less x (Fin 0) \<or> fl_less (Fin 1) x) value of
              Inl e \<Rightarrow> Inl (e, w)
            | Inr out \<Rightarrow>
                if out then Inl (ValueError (MustBeProbability name value), w)
                else Inr (w, value))
         else Inr (w, value))
      else Inr (w, value))"

text \<open>Lines 133 to 135 (1.3).\<close>

definition check_bool :: "string \<Rightarrow> bool \<Rightarrow> phase" where
  "check_bool name chk w value =
     (if name \<in> set bool_attrs \<and> chk then
        (if \<not> is_bool value then Inl (ValueError (MustBeBoolean name value), w)
         else Inr (w, value))
      else Inr (w, value))"

text \<open>
  Lines 148 to 153: the first element that is no integer raises \<open>error\<close>, the first
  negative one the other exception.
\<close>

fun check_int_elems :: "exn \<Rightarrow> exn \<Rightarrow> pyval list \<Rightarrow> exn option" where
  "check_int_elems error neg [] = None"
| "check_int_elems error neg (val # vals) =
     (if \<not> is_int val then Some error
      else (case py_cmp (\<lambda>x. fl_less x (Fin 0)) val of
              Inl e \<Rightarrow> Some e
            | Inr n \<Rightarrow> if n then Some neg else check_int_elems error neg vals))"

text \<open>Lines 137 to 153 (1.4). \<open>error\<close> is built at line 138, from the value at that point.\<close>

definition check_int_list :: "env \<Rightarrow> string \<Rightarrow> bool \<Rightarrow> phase" where
  "check_int_list env name chk w value =
     (if name \<in> set int_list_attrs \<and> chk then
        (let error = ValueError (MustBeIntList name value) in
         case (case value of
                 PStr s \<Rightarrow>
                   (case map_opt (int_of_str env) (split_on (CHR '','') s) of
                      None \<Rightarrow> Inl (error, w)
                    | Some ns \<Rightarrow> Inr (store name (PList (map PInt ns)) w, PList (map PInt ns)))
               | _ \<Rightarrow> Inr (w, value)) of
           Inl e \<Rightarrow> Inl e
         | Inr (w1, value1) \<Rightarrow>
             if \<not> is_seq value1 then Inl (error, w1)
             else (case check_int_elems error (ValueError (PositiveElements name value1))
                          (elems value1) of
                     Some e \<Rightarrow> Inl (e, w1)
                   | None \<Rightarrow> Inr (w1, value1)))
      else Inr (w, value))"

text \<open>Lines 176 to 179: the first probability outside of [0, 1] raises \<open>error\<close>.\<close>

fun check_prob_elems :: "exn \<Rightarrow> pyval list \<Rightarrow> exn option" where
  "check_prob_elems error [] = None"
| "check_prob_elems error (val # vals) =
     (case py_cmp (\<lambda>x. fl_less x (Fin 0) \<or> fl_less (Fin 1) x) val of
        Inl e \<Rightarrow> Some e
      | Inr out \<Rightarrow> if out then Some error else check_prob_elems error vals)"

text \<open>Lines 155 to 179 (1.5).\<close>

definition check_float_list :: "env \<Rightarrow> string \<Rightarrow> bool \<Rightarrow> phase" where
  "check_float_list env name chk w value =
     (if (name \<in> set probs_list_attrs \<or> name \<in> set float_list_attrs) \<and> chk then
        (let error = (if name \<in> set probs_list_attrs
                      then ValueError (MustBeProbList name value)
                      else ValueError (MustBeFloatList name value)) in
         case (case value of
                 PStr s \<Rightarrow>
                   (case map_opt (float_of_str env) (split_on (CHR '','') s) of
                      None \<Rightarrow> Inl (error, w)
                    | Some rs \<Rightarrow> Inr (store name (PList (map PFloat rs)) w, PList (map PFloat rs)))
               | _ \<Rightarrow> Inr (w, value)) of
           Inl e \<Rightarrow> Inl e
         | Inr (w1, value1) \<Rightarrow>
             if \<not> is_seq value1 then Inl (error, w1)
             else (case map_opt (py_float env) (elems value1) of
                     None \<Rightarrow> Inl (error, w1)
                   | Some fs \<Rightarrow>
                       (let w2 = store name (PList fs) w1 in
                        if name \<in> set probs_list_attrs then
                          (case check_prob_elems error fs of
                             Some e \<Rightarrow> Inl (e, w2)
                           | None \<Rightarrow> Inr (w2, PList fs))
                        else Inr (w2, PList fs))))
      else Inr (w, value))"

text \<open>A loop over names whose body reads attributes and may raise.\<close>

fun loop_names :: "string list \<Rightarrow> (string \<Rightarrow> world \<Rightarrow> (exn \<times> world) + world) \<Rightarrow> world \<Rightarrow>
    (exn \<times> world) + world" where
  "loop_names [] body w = Inr w"
| "loop_names (n # ns) body w =
     (case body n w of Inl e \<Rightarrow> Inl e | Inr w' \<Rightarrow> loop_names ns body w')"

text \<open>Lines 188 to 195: the body of the loop of block 1.6.\<close>

definition equal_len_step :: "getter \<Rightarrow> string \<Rightarrow> pyval \<Rightarrow> string \<Rightarrow> world \<Rightarrow> (exn \<times> world) + world" where
  "equal_len_step G name value attr_name w =
     (case G w attr_name of
        (Inl e, w') \<Rightarrow> Inl (e, w')
      | (Inr attr_value, w') \<Rightarrow>
          if attr_value = PNone then Inr w'
          else (case py_len value of
                  Inl e \<Rightarrow> Inl (e, w')
                | Inr n \<Rightarrow>
                    (case py_len attr_value of
                       Inl e \<Rightarrow> Inl (e, w')
                     | Inr m \<Rightarrow>
                         if n \<noteq> m
                         then Inl (ValueError (DifferentLength name value attr_name attr_value), w')
                         else Inr w')))"

text \<open>Lines 196 to 200: the length against the number of populations.\<close>

definition check_populations :: "getter \<Rightarrow> string \<Rightarrow> world \<Rightarrow> (exn \<times> world) + world" where
  "check_populations G name w =
     (if name \<notin> set bounds_attrs then
        (case G w ''number_of_populations'' of
           (Inl (AttributeError a), w1) \<Rightarrow> Inr w1
         | (Inl e, w1) \<Rightarrow> Inl (e, w1)
         | (Inr x, w1) \<Rightarrow>
             (case G w1 name of
                (Inl e, w2) \<Rightarrow> Inl (e, w2)
              | (Inr stored, w2) \<Rightarrow>
                  (case py_len stored of
                     Inl e \<Rightarrow> Inl (e, w2)
                   | Inr n \<Rightarrow>
                       (case G w2 ''number_of_populations'' of
                          (Inl e, w3) \<Rightarrow> Inl (e, w3)
                        | (Inr npop, w3) \<Rightarrow>
                            if \<not> py_eq (PInt (int n)) npop
                            then Inl (ValueError (LengthNotPopulations name npop), w3)
                            else Inr w3))))
      else Inr w)"

text \<open>Lines 182 to 200 (1.6).\<close>

definition check_equal_len :: "getter \<Rightarrow> string \<Rightarrow> bool \<Rightarrow> phase" where
  "check_equal_len G name chk w value =
     (if (name \<in> set attrs_with_equal_len \<or> name \<in> set bounds_attrs) \<and> chk then
        (let attrs_list = (if name \<in> set attrs_with_equal_len then attrs_with_equal_len
                           else bounds_attrs) in
         case loop_names attrs_list (equal_len_step G name value) w of
           Inl e \<Rightarrow> Inl e
         | Inr w1 \<Rightarrow>
             (case check_populations G name w1 of
                Inl e \<Rightarrow> Inl e
              | Inr w2 \<Rightarrow> Inr (w2, value)))
      else Inr (w, value))"

text \<open>Lines 202 to 205 (1.7).\<close>

definition split_labels :: "string \<Rightarrow> phase" where
  "split_labels name w value =
     (if name = ''population_labels'' then
        (case value of
           PStr s \<Rightarrow>
             (let value1 = PList (map PStr (split_on (CHR '','') s)) in
              Inr (store name value1 w, value1))
         | _ \<Rightarrow> Inr (w, value))
      else Inr (w, value))"

text \<open>Lines 208 to 216 (1.8 and 1.9). The result of \<open>check_dir_existence\<close> is not stored.\<close>

definition check_paths :: "env \<Rightarrow> string \<Rightarrow> phase" where
  "check_paths env name w value =
     (case (if name \<in> set empty_dir_attrs then
              (case ensure_dir_existence env value of
                 Inl e \<Rightarrow> Inl (e, w)
               | Inr value1 \<Rightarrow> Inr (store name value1 w, value1))
            else Inr (w, value)) of
        Inl e \<Rightarrow> Inl e
      | Inr (w1, value1) \<Rightarrow>
          (case (if name \<in> set exist_file_attrs then
                   (case ensure_file_existence env value1 of
                      Inl e \<Rightarrow> Inl (e, w1)
                    | Inr value2 \<Rightarrow> Inr (store name value2 w1, value2))
                 else Inr (w1, value1)) of
             Inl e \<Rightarrow> Inl e
           | Inr (w2, value2) \<Rightarrow>
               if name \<in> set exist_dir_attrs then
                 (case check_dir_existence env value2 of
                    Inl e \<Rightarrow> Inl (e, w2)
                  | Inr value3 \<Rightarrow> Inr (w2, value3))
               else Inr (w2, value2)))"

text \<open>Line 223: \<open>[x.strip() for x in value]\<close>.\<close>

fun strip_all :: "pyval list \<Rightarrow> exn + pyval list" where
  "strip_all [] = Inr []"
| "strip_all (x # xs) =
     (case x of
        PStr s \<Rightarrow> (case strip_all xs of Inl e \<Rightarrow> Inl e | Inr ys \<Rightarrow> Inr (PStr (strip s) # ys))
      | _ \<Rightarrow> Inl (AttributeError ''strip''))"

text \<open>Lines 224 to 228: every identifier starts with a letter of \<open>P_IDS\<close>.\<close>

fun check_identifiers :: "env \<Rightarrow> pyval list \<Rightarrow> exn option" where
  "check_identifiers env [] = None"
| "check_identifiers env (val # vals) =
     (case val of
        PStr s \<Rightarrow>
          (case lower s of
             [] \<Rightarrow> Some IndexError
           | c # cs \<Rightarrow>
               if p_ids env [c] = None then Some (ValueError BadIdentifier)
               else check_identifiers env vals)
      | _ \<Rightarrow> Some (AttributeError ''lower''))"

text \<open>Lines 219 to 229 (1.10).\<close>

definition check_parameter_identifiers :: "env \<Rightarrow> string \<Rightarrow> phase" where
  "check_parameter_identifiers env name w value =
     (if name = ''parameter_identifiers'' then
        (let value1 = (case value of
                         PStr s \<Rightarrow> PList (map PStr (split_on (CHR '','') s))
                       | _ \<Rightarrow> value) in
         case iter_vals value1 of
           Inl e \<Rightarrow> Inl (e, w)
         | Inr xs \<Rightarrow>
             (case strip_all xs of
                Inl e \<Rightarrow> Inl (e, w)
              | Inr ys \<Rightarrow>
                  (case check_identifiers env ys of
                     Some e \<Rightarrow> Inl (e, w)
                   | None \<Rightarrow> Inr (store name (PList ys) w, PList ys))))
      else Inr (w, value))"

text \<open>Lines 233 to 238 (2.1).\<close>

definition check_mutation_const :: "string \<Rightarrow> phase" where
  "check_mutation_const name w value =
     (if name \<in> set [''const_for_mutation_strength'', ''const_for_mutation_rate''] then
        (if \<not> is_float value then Inl (ValueError (MustBeFloat name value), w)
         else (case py_cmp (\<lambda>x. fl_less x (Fin 1) \<or> fl_less (Fin 2) x) value of
                 Inl e \<Rightarrow> Inl (e, w)
               | Inr out \<Rightarrow>
                   if out then Inl (ValueError (MustBeBetween1And2 name value), w)
                   else Inr (w, value)))
      else Inr (w, value))"

text \<open>Lines 240 to 242 (2.2).\<close>

definition check_vmin :: "string \<Rightarrow> phase" where
  "check_vmin name w value =
     (if name = ''vmin'' then
        (case py_cmp (\<lambda>x. fl_le x (Fin 0)) value of
           Inl e \<Rightarrow> Inl (e, w)
         | Inr bad \<Rightarrow>
             if bad then Inl (ValueError (MustBePositiveVmin name value), w)
             else Inr (w, value))
      else Inr (w, value))"

text \<open>Reading several attributes one after the other.\<close>

fun get_all :: "getter \<Rightarrow> string list \<Rightarrow> world \<Rightarrow> (exn \<times> world) + (pyval list \<times> world)" where
  "get_all G [] w = Inr ([], w)"
| "get_all G (n # ns) w =
     (case G w n of
        (Inl e, w1) \<Rightarrow> Inl (e, w1)
      | (Inr v, w1) \<Rightarrow>
          (case get_all G ns w1 of
             Inl e \<Rightarrow> Inl e
           | Inr (vs, w2) \<Rightarrow> Inr (v # vs, w2)))"

text \<open>Lines 246 to 253 (3.1): a new data holder.\<close>

definition make_data_holder :: "getter \<Rightarrow> env \<Rightarrow> world \<Rightarrow> (exn \<times> world) + world" where
  "make_data_holder G env w =
     (case get_all G [''input_file'', ''projections'', ''outgroup'', ''population_labels'',
                      ''sequence_length''] w of
        Inl e \<Rightarrow> Inl e
      | Inr (vs, w1) \<Rightarrow>
          (case vs of
             [a, b, c, d, e] \<Rightarrow>
               (case new_data_holder env a b c d e of
                  Inl x \<Rightarrow> Inl (x, w1)
                | Inr holder \<Rightarrow> Inr (store ''data_holder'' holder w1))
           | _ \<Rightarrow> Inr w1))"

definition set_field :: "string \<Rightarrow> pyval \<Rightarrow> (string \<times> pyval) list \<Rightarrow> (string \<times> pyval) list" where
  "set_field k v fs = (if k \<in> fst ` set fs then map (\<lambda>(a, b). if a = k then (a, v) else (a, b)) fs
                       else fs @ [(k, v)])"

text \<open>
  Lines 255 to 257 (3.2): the data holder, if the object has one, gets the attribute
  too. A holder stored on the object is updated in place; an opaque object or one that
  belongs to the module \<open>settings\<close> is outside of the modelled state.
\<close>

definition update_data_holder :: "getter \<Rightarrow> string \<Rightarrow> pyval \<Rightarrow> world \<Rightarrow> (exn \<times> world) + world" where
  "update_data_holder G name value w =
     (case G w ''data_holder'' of
        (Inl (AttributeError a), w1) \<Rightarrow> Inr w1
      | (Inl e, w1) \<Rightarrow> Inl (e, w1)
      | (Inr x, w1) \<Rightarrow>
          (case G w1 ''data_holder'' of
             (Inl e, w2) \<Rightarrow> Inl (e, w2)
           | (Inr holder, w2) \<Rightarrow>
               (case holder of
                  PDict fs \<Rightarrow>
                    (if attrs w2 ''data_holder'' = Some holder
                     then Inr (store ''data_holder'' (PDict (set_field name value fs)) w2)
                     else Inr w2)
                | PObj t \<Rightarrow> Inr w2
                | _ \<Rightarrow> Inl (AttributeError name, w2))))"

text \<open>Lines 266 to 270 (3.5), reached for \<open>pts\<close>.\<close>

definition warn_pts :: "getter \<Rightarrow> env \<Rightarrow> world \<Rightarrow> (exn \<times> world) + world" where
  "warn_pts G env w =
     (case G w ''engine'' of
        (Inl e, w1) \<Rightarrow> Inl (e, w1)
      | (Inr engine, w1) \<Rightarrow>
          if \<not> py_eq engine (PStr ''dadi'') then
            (case G w1 ''pts'' of
               (Inl e, w2) \<Rightarrow> Inl (e, w2)
             | (Inr pts, w2) \<Rightarrow>
                 (case settings_attr env ''pts'' of
                    None \<Rightarrow> Inl (AttributeError ''pts'', w2)
                  | Some default_pts \<Rightarrow>
                      if \<not> py_eq pts default_pts
                      then (case G w2 ''engine'' of
                              (Inl e, w3) \<Rightarrow> Inl (e, w3)
                            | (Inr engine', w3) \<Rightarrow> Inr (warn (PtsNotNeeded engine') w3))
                      else Inr w2))
          else Inr w1)"

text \<open>Lines 275 to 280 (3.6): the body of the loop.\<close>

definition populations_step :: "getter \<Rightarrow> string \<Rightarrow> world \<Rightarrow> (exn \<times> world) + world" where
  "populations_step G attr_name w =
     (case G w attr_name of
        (Inl e, w1) \<Rightarrow> Inl (e, w1)
      | (Inr v, w1) \<Rightarrow>
          if v = PNone then Inr w1
          else (case G w1 attr_name of
                  (Inl e, w2) \<Rightarrow> Inl (e, w2)
                | (Inr v2, w2) \<Rightarrow>
                    (case py_len v2 of
                       Inl e \<Rightarrow> Inl (e, w2)
                     | Inr n \<Rightarrow>
                         (case G w2 ''number_of_populations'' of
                            (Inl e, w3) \<Rightarrow> Inl (e, w3)
                          | (Inr npop, w3) \<Rightarrow>
                              if \<not> py_eq (PInt (int n)) npop
                              then Inl (ValueError (LengthNotPopulations attr_name npop), w3)
                              else Inr w3))))"

text \<open>
  Lines 283 to 293 (3.7): the options of the genetic algorithm that depend on
  \<open>fractions\<close> and \<open>size_of_generation\<close>.
\<close>

definition derive_ga_options :: "getter \<Rightarrow> env \<Rightarrow> world \<Rightarrow> (exn \<times> world) + world" where
  "derive_ga_options G env w =
     (case G w ''fractions'' of
        (Inl e, w1) \<Rightarrow> Inl (e, w1)
      | (Inr fr, w1) \<Rightarrow>
     (case py_item fr 0 of
        Inl e \<Rightarrow> Inl (e, w1)
      | Inr f0 \<Rightarrow>
     (case G w1 ''size_of_generation'' of
        (Inl e, w2) \<Rightarrow> Inl (e, w2)
      | (Inr sz, w2) \<Rightarrow>
     (case py_mul f0 sz of
        Inl e \<Rightarrow> Inl (e, w2)
      | Inr pr \<Rightarrow>
     (case py_int env pr of
        Inl e \<Rightarrow> Inl (e, w2)
      | Inr n_elitism \<Rightarrow>
     (case G w2 ''fractions'' of
        (Inl e, w3) \<Rightarrow> Inl (e, w3)
      | (Inr fr2, w3) \<Rightarrow>
     (case py_sum fr2 of
        Inl e \<Rightarrow> Inl (e, w3)
      | Inr tot \<Rightarrow>
     (case one_minus tot of
        Inl e \<Rightarrow> Inl (e, w3)
      | Inr p_random \<Rightarrow>
     (case G (store ''n_elitism'' n_elitism w3) ''fractions'' of
        (Inl e, w4) \<Rightarrow> Inl (e, w4)
      | (Inr fr3, w4) \<Rightarrow>
     (case py_item fr3 1 of
        Inl e \<Rightarrow> Inl (e, w4)
      | Inr f1 \<Rightarrow>
     (case G (store ''p_mutation'' f1 w4) ''fractions'' of
        (Inl e, w5) \<Rightarrow> Inl (e, w5)
      | (Inr fr4, w5) \<Rightarrow>
     (case py_item fr4 2 of
        Inl e \<Rightarrow> Inl (e, w5)
      | Inr f2 \<Rightarrow>
          Inr (store ''p_random'' p_random (store ''p_crossover'' f2 w5))))))))))))))"

text \<open>Lines 295 to 312 (3.8): the units of time in drawings.\<close>

definition time_units :: "(string \<times> pyval) list" where
  "time_units =
     [(''generations'', PInt 1), (''years'', PInt 1),
      (''thousands of years'', PFloat (round_double (1 / 100))),
      (''kya'', PFloat (round_double (1 / 100)))]"

definition set_time_units :: "getter \<Rightarrow> string \<Rightarrow> world \<Rightarrow> pyval \<Rightarrow> (exn \<times> world) + world" where
  "set_time_units G name w value =
     (if name = ''units_of_time_in_drawing'' then
        (if \<not> hashable value then Inl (TypeError, w)
         else if \<not> (case value of PStr s \<Rightarrow> s \<in> fst ` set time_units | _ \<Rightarrow> False)
         then Inl (ValueError (BadTimeUnits name), w)
         else if \<not> py_eq value (PStr ''generations'') then
           (case G w ''time_for_generation'' of
              (Inl (AttributeError a), w1) \<Rightarrow> Inr (warn NoTimeForGeneration w1)
            | (Inl e, w1) \<Rightarrow> Inl (e, w1)
            | (Inr x, w1) \<Rightarrow> Inr w1)
         else Inr w)
      else (case find (\<lambda>(key, val). py_eq val value) time_units of
              Some (key, val) \<Rightarrow> Inr (store ''units_of_time_in_drawing'' (PStr key) w)
            | None \<Rightarrow> Inr w))"

text \<open>The local variables of \<open>__setattr__\<close>.\<close>

definition setattr_locals :: "string list" where
  "setattr_locals =
     [''self'', ''name'', ''value'', ''int_attrs'', ''float_attrs'', ''probs_attrs'',
      ''bool_attrs'', ''int_list_attrs'', ''float_list_attrs'', ''probs_list_attrs'',
      ''attrs_with_equal_len'', ''special_attrs'', ''exist_file_attrs'', ''exist_dir_attrs'',
      ''empty_dir_attrs'', ''data_holder_attrs'', ''bounds_attrs'', ''bounds_lists'',
      ''missed_attrs'', ''super_hasattr'', ''we_check'', ''default_value'', ''error'', ''val'',
      ''x'', ''attrs_list'', ''attr_name'', ''attr_value'', ''data_holder'', ''engine_obj'',
      ''optimizer_obj'', ''n_elitism'', ''p_random'', ''d'', ''key'', ''spec'', ''module'',
      ''func_name'', ''model_func_value'', ''msg'']"

text \<open>
  \<open>C.default_domain[i] = value\<close> for a variable class \<open>C\<close>: the name \<open>C\<close> is looked up
  when the statement runs.
\<close>

definition assign_domain :: "string \<Rightarrow> nat \<Rightarrow> pyval \<Rightarrow> world \<Rightarrow> (exn \<times> world) + world" where
  "assign_domain cls i value w =
     (case resolve_name setattr_locals cls of
        Some e \<Rightarrow> Inl (e, w)
      | None \<Rightarrow>
          if i < length (default_domain w cls)
          then Inr (w\<lparr>default_domain := (default_domain w)(cls := (default_domain w cls)[i := value])\<rparr>)
          else Inl (IndexError, w))"

definition warn_domain :: "string \<Rightarrow> char \<Rightarrow> string \<Rightarrow> world \<Rightarrow> (exn \<times> world) + world" where
  "warn_domain name c cls w =
     (if name \<noteq> [] \<and> last name = c then
        (case resolve_name setattr_locals cls of
           Some e \<Rightarrow> Inl (e, w)
         | None \<Rightarrow> Inr (warn (DomainChanged cls (default_domain w cls)) w))
      else Inr w)"

text \<open>Lines 314 to 337 (3.9): the default domains of the variable classes.\<close>

definition set_default_domain :: "string \<Rightarrow> world \<Rightarrow> pyval \<Rightarrow> (exn \<times> world) + world" where
  "set_default_domain name w value =
     (case (if name = ''min_n'' then assign_domain ''PopulationSizeVariable'' 0 value w
            else if name = ''max_n'' then assign_domain ''PopulationSizeVariable'' 1 value w
            else if name = ''min_t'' then assign_domain ''TimeVariable'' 0 value w
            else if name = ''max_t'' then assign_domain ''TimeVariable'' 1 value w
            else if name = ''min_m'' then assign_domain ''MigrationVariable'' 0 value w
            else if name = ''max_m'' then assign_domain ''MigrationVariable'' 1 value w
            else Inl (AttributeError ''Check for supported variables'', w)) of
        Inl e \<Rightarrow> Inl e
      | Inr w1 \<Rightarrow>
          (case warn_domain name (CHR ''n'') ''PopulationSizeVariable'' w1 of
             Inl e \<Rightarrow> Inl e
           | Inr w2 \<Rightarrow>
               (case warn_domain name (CHR ''t'') ''TimeVariable'' w2 of
                  Inl e \<Rightarrow> Inl e
                | Inr w3 \<Rightarrow> warn_domain name (CHR ''m'') ''MigrationVariable'' w3)))"

text \<open>Lines 246 to 337: the \<open>if\<close>/\<open>elif\<close> chain of block 3.\<close>

definition dependents :: "getter \<Rightarrow> env \<Rightarrow> string \<Rightarrow> phase" where
  "dependents G env name w value =
     (case (if name = ''input_file'' then make_data_holder G env w
            else if name \<in> set data_holder_attrs then update_data_holder G name value w
            else if name = ''engine'' then
              (case get_engine env value of Some e \<Rightarrow> Inl (e, w) | None \<Rightarrow> Inr w)
            else if name = ''local_optimizer'' then
              (case get_local_optimizer env value of Some e \<Rightarrow> Inl (e, w) | None \<Rightarrow> Inr w)
            else if name \<in> set [''engine'', ''pts''] then warn_pts G env w
            else if name = ''number_of_populations'' then
              loop_names attrs_with_equal_len (populations_step G) w
            else if name = ''fractions'' \<or> name = ''size_of_generation'' then
              derive_ga_options G env w
            else if name = ''units_of_time_in_drawing'' \<or> name = ''const_of_time_in_drawing''
            then set_time_units G name w value
            else if name \<in> set bounds_attrs then set_default_domain name w value
            else Inr w) of
        Inl e \<Rightarrow> Inl e
      | Inr w' \<Rightarrow> Inr (w', value))"

text \<open>Lines 341 to 353 (3.10): a custom model file must define \<open>model_func\<close>.\<close>

definition custom_model :: "env \<Rightarrow> string \<Rightarrow> phase" where
  "custom_model env name w value =
     (if name = ''custom_filename'' then
        (case load_model_func env value of
           Inl e \<Rightarrow> Inl (e, w)
         | Inr None \<Rightarrow> Inl (ValueError (NoModelFunc value), w)
         | Inr (Some f) \<Rightarrow> Inr (store ''model_func'' f w, value))
      else Inr (w, value))"

text \<open>Lines 355 to 361.\<close>

definition warn_bounds :: "getter \<Rightarrow> string \<Rightarrow> phase" where
  "warn_bounds G name w value =
     (if name \<in> set bounds_attrs then
        (case G w ''custom_filename'' of
           (Inl e, w1) \<Rightarrow> Inl (e, w1)
         | (Inr cf, w1) \<Rightarrow>
             if cf = PNone then
               (case G w1 ''initial_structure'' of
                  (Inl e, w2) \<Rightarrow> Inl (e, w2)
                | (Inr st, w2) \<Rightarrow>
                    Inr (warn (SetBeforeCustomFilename name (st \<noteq> PNone)) w2, value))
             else Inr (w1, value))
      else Inr (w, value))"

text \<open>Lines 363 to 367 (3.11).\<close>

definition warn_structure :: "getter \<Rightarrow> string \<Rightarrow> phase" where
  "warn_structure G name w value =
     (if name \<in> set [''initial_structure'', ''final_structure''] \<and> value \<noteq> PNone then
        (case G w ''custom_filename'' of
           (Inl e, w1) \<Rightarrow> Inl (e, w1)
         | (Inr cf, w1) \<Rightarrow>
             if cf \<noteq> PNone then
               (case G w1 ''lower_bound'' of
                  (Inl e, w2) \<Rightarrow> Inl (e, w2)
                | (Inr lb, w2) \<Rightarrow>
                    if lb \<noteq> PNone then
                      (case G w2 ''upper_bound'' of
                         (Inl e, w3) \<Rightarrow> Inl (e, w3)
                       | (Inr ub, w3) \<Rightarrow>
                           if ub \<noteq> PNone then Inr (warn (StructureIgnored name) w3, value)
                           else Inr (w3, value))
                    else Inr (w2, value))
             else Inr (w1, value))
      else Inr (w, value))"

text \<open>The state that a block leaves behind, whether it raised or not.\<close>

definition left_world :: "(exn \<times> world) + world \<Rightarrow> world" where
  "left_world r = (case r of Inl (e, w) \<Rightarrow> w | Inr w \<Rightarrow> w)"

definition phase_world :: "(exn \<times> world) + (world \<times> pyval) \<Rightarrow> world" where
  "phase_world r = (case r of Inl (e, w) \<Rightarrow> w | Inr (w, v) \<Rightarrow> w)"

text \<open>
  \<open>__setattr__\<close>, with the getter it reads attributes with. An unrecognized name is
  refused before anything is stored (line 93); a recognized one is stored (line 95)
  and then checked.
\<close>

definition setattr_gen :: "getter \<Rightarrow> env \<Rightarrow> setter" where
  "setattr_gen G env w name value =
     (if \<not> recognized name then (Some (ValueError (ShouldBeChecked name)), w)
      else
        (case structure_as_list name (store name value w) value of
           (w1, value1) \<Rightarrow>
             (let chk = we_check env name value1 in
              case run_phases
                     [check_int name chk, check_float name chk, check_bool name chk,
                      check_int_list env name chk, check_float_list env name chk,
                      check_equal_len G name chk, split_labels name, check_paths env name,
                      check_parameter_identifiers env name, check_mutation_const name,
                      check_vmin name, dependents G env name, custom_model env name,
                      warn_bounds G name, warn_structure G name]
                     w1 value1 of
                Inl (e, w') \<Rightarrow> (Some e, w')
              | Inr (w', value') \<Rightarrow> (None, w'))))"

text \<open>
  The two methods call each other, but not without end: \<open>__getattr__\<close> assigns only
  \<open>parameter_identifiers\<close>, \<open>lower_bound\<close> and \<open>upper_bound\<close>, and for these three
  names \<open>__setattr__\<close> reads no attribute of the object (see \<open>setattr_nested_exact\<close>
  below). So the setter inside the getter is given a getter without special defaults.
\<close>

definition setattr_nested :: "env \<Rightarrow> setter" where
  "setattr_nested env = setattr_gen (\<lambda>w name. (getattr_plain env w name, w)) env"

definition getattr :: "env \<Rightarrow> getter" where
  "getattr env = getattr_gen (setattr_nested env) env"

definition setattr :: "env \<Rightarrow> setter" where
  "setattr env = setattr_gen (getattr env) env"

subsection \<open>Loading a storage from files: \<open>from_file\<close> (lines 497 to 536)\<close>

definition CHANGED_IDENTIFIERS :: "(string \<times> string) list" where
  "CHANGED_IDENTIFIERS =
     [(''use_moments_or_dadi'', ''engine''),
      (''size_of_population_in_ga'', ''size_of_generation''),
      (''fractions_in_ga'', ''fractions''),
      (''epsilon'', ''eps''),
      (''stop_iteration'', ''stuck_generation_number''),
      (''name_of_local_optimization'', ''local_optimizer'')]"

definition DEPRECATED_IDENTIFIERS :: "string list" where
  "DEPRECATED_IDENTIFIERS =
     [''multinom'', ''verbose'', ''flush_delay'', ''epsilon_for_ls'', ''gtol'', ''maxiter'',
      ''multinomial_mutation'', ''multinomial_crossing'', ''distribution'', ''std'',
      ''mean_mutation_rate_for_hc'', ''const_for_mutation_rate_for_hc'',
      ''stop_iteration_for_hc'']"

text \<open>\<open>s.replace("__", "_")\<close>: the occurrences from the left, without overlap.\<close>

fun collapse_underscores :: "string \<Rightarrow> string" where
  "collapse_underscores (a # b # xs) =
     (if a = CHR ''_'' \<and> b = CHR ''_'' then CHR ''_'' # collapse_underscores xs
      else a # collapse_underscores (b # xs))"
| "collapse_underscores xs = xs"

text \<open>Lines 516 to 519: the attribute name of a key of the file.\<close>

definition attr_name_of_key :: "string \<Rightarrow> string" where
  "attr_name_of_key key =
     collapse_underscores
       (map (\<lambda>c. if c = CHR 0x27 then CHR ''_'' else c)
          (map (\<lambda>c. if c = CHR '' '' then CHR ''_'' else c) (strip (lower key))))"

text \<open>\<open>{**a, **b}\<close>: the keys of \<open>a\<close> in their order, with the values of \<open>b\<close> where it
  has the key, then the other keys of \<open>b\<close>.\<close>

definition merge_dicts :: "(string \<times> pyval) list \<Rightarrow> (string \<times> pyval) list \<Rightarrow> (string \<times> pyval) list" where
  "merge_dicts a b =
     map (\<lambda>(k, v). (k, case map_of b k of Some v' \<Rightarrow> v' | None \<Rightarrow> v)) a @
     filter (\<lambda>(k, v). k \<notin> fst ` set a) b"

text \<open>
  Lines 515 to 535: the body of the loop over the loaded keys. \<open>hasattr\<close> is true
  unless the read raises \<open>AttributeError\<close>. The methods and properties of the class,
  which \<open>hasattr\<close> would find too, are not among the names modelled.
\<close>

definition load_key :: "env \<Rightarrow> string \<times> pyval \<Rightarrow> world \<Rightarrow> (exn \<times> world) + world" where
  "load_key env kv w =
     (case kv of
        (key, v) \<Rightarrow>
          (let attr_name0 = attr_name_of_key key;
               renamed = map_of CHANGED_IDENTIFIERS attr_name0;
               attr_name = (case renamed of Some n \<Rightarrow> n | None \<Rightarrow> attr_name0);
               w0 = (case renamed of Some n \<Rightarrow> warn (SettingRenamed key n) w | None \<Rightarrow> w)
           in case (case getattr env w0 attr_name of
                      (Inl (AttributeError a), w1) \<Rightarrow>
                        if attr_name \<in> set DEPRECATED_IDENTIFIERS
                        then Inr (warn (SettingDeprecated key) w1)
                        else Inl (AttributeError key, w1)
                    | (Inl e, w1) \<Rightarrow> Inl (e, w1)
                    | (Inr x, w1) \<Rightarrow> Inr w1) of
                Inl e \<Rightarrow> Inl e
              | Inr w2 \<Rightarrow>
                  (case setattr env w2 attr_name v of
                     (Some e, w3) \<Rightarrow> Inl (e, w3)
                   | (None, w3) \<Rightarrow> Inr w3)))"

fun load_keys :: "env \<Rightarrow> (string \<times> pyval) list \<Rightarrow> world \<Rightarrow> (exn \<times> world) + world" where
  "load_keys env [] w = Inr w"
| "load_keys env (kv # kvs) w =
     (case load_key env kv w of Inl e \<Rightarrow> Inl e | Inr w' \<Rightarrow> load_keys env kvs w')"

text \<open>
  \<open>SettingsStorage.from_file\<close>. Its parameters are \<open>param_file\<close> and
  \<open>extra_param_file\<close>; the guard of line 500 reads the name \<open>extra_params_file\<close> when
  \<open>param_file\<close> is \<open>None\<close> (\<open>and\<close> evaluates its right operand only then). Were that
  name bound at module level or a builtin, it would be no \<open>None\<close>. The result on
  success is the state whose attributes are those of the new object.
\<close>

definition from_file :: "env \<Rightarrow> world \<Rightarrow> string option \<Rightarrow> string option \<Rightarrow> (exn \<times> world) + world" where
  "from_file env w param_file extra_param_file =
     (case (if param_file = None
            then (case resolve_name [''param_file'', ''extra_param_file''] ''extra_params_file'' of
                    Some e \<Rightarrow> Inl e
                  | None \<Rightarrow> Inr False)
            else Inr False) of
        Inl e \<Rightarrow> Inl (e, w)
      | Inr fast \<Rightarrow>
          if fast then Inr (w\<lparr>attrs := Map.empty\<rparr>)
          else
            (case (case param_file of
                     None \<Rightarrow> Inr []
                   | Some f \<Rightarrow> load_yaml env f) of
               Inl e \<Rightarrow> Inl (e, w)
             | Inr loaded_dict \<Rightarrow>
                 (case (case extra_param_file of
                          None \<Rightarrow> Inr loaded_dict
                        | Some f \<Rightarrow>
                            (case load_yaml env f of
                               Inl e \<Rightarrow> Inl e
                             | Inr extra_dict \<Rightarrow> Inr (merge_dicts loaded_dict extra_dict))) of
                    Inl e \<Rightarrow> Inl (e, w)
                  | Inr loaded_dict' \<Rightarrow> load_keys env loaded_dict' (w\<lparr>attrs := Map.empty\<rparr>))))"

subsection \<open>A concrete environment\<close>

text \<open>
  An environment and a state to run the model on: defaults for the genetic algorithm
  and for the lower bound of population sizes, the table \<open>P_IDS\<close> of the three variable
  classes, helpers that accept every path, no custom model, empty files, and the
  parsing of the few numerals used below. Its floats are doubles: fractions of a power
  of two.
\<close>

definition env0 :: env where
  "env0 =
     \<lparr>settings_attr =
        [''fractions'' \<mapsto> PList [PFloat (Fin (1 / 4)), PFloat (Fin (3 / 8)), PFloat (Fin (3 / 8))],
         ''size_of_generation'' \<mapsto> PInt 10,
         ''min_n'' \<mapsto> PFloat (Fin (1 / 128)),
         ''custom_filename'' \<mapsto> PNone],
      p_ids = [''n'' \<mapsto> ''PopulationSizeVariable'', ''t'' \<mapsto> ''TimeVariable'',
               ''m'' \<mapsto> ''MigrationVariable''],
      ensure_dir_existence = Inr,
      ensure_file_existence = Inr,
      check_dir_existence = Inr,
      new_data_holder = (\<lambda>a b c d e. Inr (PDict [(''input_file'', a), (''projections'', b),
         (''outgroup'', c), (''population_labels'', d), (''sequence_length'', e)])),
      get_engine = (\<lambda>v. None),
      get_local_optimizer = (\<lambda>v. None),
      load_model_func = (\<lambda>v. Inr None),
      scan_identifiers = (\<lambda>v. Inr None),
      load_yaml = (\<lambda>f. Inr []),
      int_of_str = (\<lambda>s. if s = ''1'' then Some 1 else if s = ''2'' then Some 2 else None),
      float_of_str = (\<lambda>s. if s = ''2'' then Some (Fin 2)
                           else if s = ''0.25'' then Some (Fin (1 / 4)) else None)\<rparr>"

definition world0 :: world where
  "world0 =
     \<lparr>attrs = Map.empty,
      default_domain = (\<lambda>cls. [PFloat (Fin (1 / 128)), PFloat (Fin 128)]),
      warnings = []\<rparr>"

subsection \<open>Notions used to state what an assignment leaves behind\<close>



text \<open>
  A later state in which every attribute that was stored is still stored, and has kept
  its value unless its name is in \<open>K\<close>.
\<close>

definition evolves :: "string set \<Rightarrow> world \<Rightarrow> world \<Rightarrow> bool" where
  "evolves K w w' =
     (\<forall>k. attrs w k \<noteq> None \<longrightarrow> (if k \<in> K then attrs w' k \<noteq> None else attrs w' k = attrs w k))"


text \<open>
  What block 1.5 makes of a value (lines 163 to 173): a string is split at its commas
  and each piece converted with \<open>float\<close>, a list or a tuple is converted element by
  element; \<open>None\<close> where the block raises.
\<close>

definition float_list :: "env \<Rightarrow> pyval \<Rightarrow> pyval option" where
  "float_list env value =
     (case value of
        PStr s \<Rightarrow>
          map_option (\<lambda>rs. PList (map PFloat rs))
            (map_opt (float_of_str env) (split_on (CHR '','') s))
      | _ \<Rightarrow>
          if is_seq value then map_option PList (map_opt (py_float env) (elems value))
          else None)"
section \<open>The optimizers and the run coordinator\<close>

text \<open>
  Modelled from the spec: the genetic algorithm, the local optimizer adapter, the run
  coordinator \<open>CoreRun\<close> and the shared registry are code of the repository that is not
  among the source files; only their test (\<open>tests/test_all.py\<close>) is. The definitions of
  this section follow sections 3 and 4 of the specification. Where the specification
  leaves an operation open (how a variable is resampled, how a parent is selected, how
  a value is perturbed, how two parents are combined, how the local search moves), the
  operation is a parameter: a function of the state of the random generator that returns
  its result with the next state, which is what \<open>deterministic given a seeded random
  source\<close> asks for. Scores are real numbers, and the fitness function is total (the
  \<open>FitnessEvaluationError\<close> of section 7 is not modelled).
\<close>

subsection \<open>Candidates, scores and the order of the configured mode\<close>

text \<open>
  Modelled from the spec: a candidate is an ordered sequence of values, one per variable,
  with its fitness score (section 3).
\<close>

type_synonym point = "real list"

type_synonym scored = "point \<times> real"

text \<open>
  Modelled from the spec: \<open>maximize or minimize per configured mode\<close>. The first
  argument is true in maximize mode; \<open>better\<close> is strict, \<open>no_worse\<close> is not.
\<close>

definition better :: "bool \<Rightarrow> real \<Rightarrow> real \<Rightarrow> bool" where
  "better mx a b = (if mx then b < a else a < b)"


text \<open>
  Modelled from the spec: \<open>update best-so-far\<close> (4.2, step 7). The best so far is
  replaced by a candidate that is strictly better, in the order of the list.
\<close>

definition best_of :: "bool \<Rightarrow> scored list \<Rightarrow> scored \<Rightarrow> scored" where
  "best_of mx cands b = fold (\<lambda>c b. if better mx (snd c) (snd b) then c else b) cands b"

text \<open>
  Modelled from the spec: whether \<open>the best improved beyond eps tolerance\<close> (4.2,
  step 7).
\<close>

definition improved :: "bool \<Rightarrow> real \<Rightarrow> real \<Rightarrow> real \<Rightarrow> bool" where
  "improved mx e old new = (if mx then old + e < new else new < old - e)"



subsection \<open>The genetic algorithm (4.2)\<close>

text \<open>
  Modelled from the spec: the configuration of the genetic algorithm: the size of a
  generation, the number of elite candidates, the fractions of mutated and of
  crossed-over candidates (the rest is random), the tolerance \<open>eps\<close>, the threshold of
  the stuck counter and the mode.
\<close>

record ga_config =
  gen_size :: nat
  n_elitism :: nat
  p_mutation :: real
  p_crossover :: real
  eps :: real
  stuck_limit :: nat
  maximize :: bool

text \<open>
  Modelled from the spec: the operations that the specification leaves open, as
  functions of the state of the random generator: \<open>resample\<close> draws a fresh candidate
  (4.1), \<open>select\<close> draws a parent from the sorted population, \<open>perturb\<close> mutates a
  parent with a strength that depends on the stuck counter (the adaptive scaling of
  step 3), \<open>combine\<close> crosses two parents.
\<close>

record 'r variation =
  resample :: "'r \<Rightarrow> point \<times> 'r"
  select :: "scored list \<Rightarrow> 'r \<Rightarrow> point \<times> 'r"
  perturb :: "nat \<Rightarrow> point \<Rightarrow> 'r \<Rightarrow> point \<times> 'r"
  combine :: "point \<Rightarrow> point \<Rightarrow> 'r \<Rightarrow> point \<times> 'r"

text \<open>
  Modelled from the spec: the state of the optimizer, which is also the checkpoint
  (section 3): the variables it was started with, the generation index, the full
  population with scores, the stuck counter, the state of the random generator and the
  best result so far, with the number of evaluations and the history that the result
  reports. A checkpoint file round-trips exactly (section 6), so the file is the state.
\<close>

record 'r ga_state =
  variables :: "string list"
  generation :: nat
  population :: "scored list"
  stuck :: nat
  rng :: 'r
  best :: scored
  evals :: nat
  history :: "real list"

text \<open>\<open>n\<close> draws from one generator, each from the state that the one before left.\<close>

fun draw :: "nat \<Rightarrow> ('r \<Rightarrow> 'a \<times> 'r) \<Rightarrow> 'r \<Rightarrow> 'a list \<times> 'r" where
  "draw 0 g r = ([], r)"
| "draw (Suc n) g r =
     (case g r of (x, r1) \<Rightarrow> (case draw n g r1 of (xs, r2) \<Rightarrow> (x # xs, r2)))"

text \<open>
  Modelled from the spec: step 1, the population sorted by fitness, the best first; the
  sort is stable, so that ties keep the insertion order.
\<close>

definition sorted_population :: "bool \<Rightarrow> scored list \<Rightarrow> scored list" where
  "sorted_population mx pop = sort_key (\<lambda>c. if mx then - snd c else snd c) pop"

text \<open>
  Modelled from the spec: the numbers of mutated and of crossed-over candidates,
  \<open>round(p_mutation * gen_size)\<close> and \<open>round(p_crossover * gen_size)\<close> (steps 3 and 4).
\<close>

definition n_mutated :: "ga_config \<Rightarrow> nat" where
  "n_mutated cfg = nat (round_even (p_mutation cfg * real (gen_size cfg)))"

definition n_crossed :: "ga_config \<Rightarrow> nat" where
  "n_crossed cfg = nat (round_even (p_crossover cfg * real (gen_size cfg)))"

text \<open>
  Modelled from the spec: one generation (4.2, steps 1 to 7). The population is sorted;
  the top \<open>n_elitism\<close> candidates are carried unchanged, with their cached scores; the
  mutated candidates are perturbed selected parents; the crossed-over candidates
  combine two selected parents; the remainder of the generation is resampled; the new
  candidates are evaluated with the fitness function; the best so far is updated and
  the stuck counter is reset when the best improved beyond \<open>eps\<close>, incremented
  otherwise.
\<close>

definition next_generation ::
    "ga_config \<Rightarrow> 'r variation \<Rightarrow> (point \<Rightarrow> real) \<Rightarrow> 'r ga_state \<Rightarrow> 'r ga_state" where
  "next_generation cfg ops f s =
     (let ranked = sorted_population (maximize cfg) (population s);
          elite = take (n_elitism cfg) ranked in
      case draw (n_mutated cfg)
             (\<lambda>r. case select ops ranked r of (parent, r') \<Rightarrow> perturb ops (stuck s) parent r')
             (rng s) of
        (mutated, r1) \<Rightarrow>
      (case draw (n_crossed cfg)
              (\<lambda>r. case select ops ranked r of
                      (p1, r') \<Rightarrow> (case select ops ranked r' of
                                     (p2, r'') \<Rightarrow> combine ops p1 p2 r''))
              r1 of
        (crossed, r2) \<Rightarrow>
      (case draw (gen_size cfg - (length elite + n_mutated cfg + n_crossed cfg))
              (resample ops) r2 of
        (fresh, r3) \<Rightarrow>
          (let new = mutated @ crossed @ fresh;
               pop = elite @ map (\<lambda>x. (x, f x)) new;
               b = best_of (maximize cfg) pop (best s) in
           \<lparr>variables = variables s,
            generation = generation s + 1,
            population = pop,
            stuck = (if improved (maximize cfg) (eps cfg) (snd (best s)) (snd b) then 0
                     else stuck s + 1),
            rng = r3,
            best = b,
            evals = evals s + length new,
            history = history s @ [snd b]\<rparr>))))"

text \<open>
  Modelled from the spec: the loop of generations (steps 8 and 9). It stops when
  \<open>maxiter\<close> generations are reached or when the stuck counter reaches its threshold.
  The function returns the state after each generation: the successive contents of the
  checkpoint file, which is overwritten after every generation.
\<close>

function ga_trace ::
    "ga_config \<Rightarrow> 'r variation \<Rightarrow> (point \<Rightarrow> real) \<Rightarrow> nat \<Rightarrow> 'r ga_state \<Rightarrow> 'r ga_state list" where
  "ga_trace cfg ops f maxiter s =
     (if generation s < maxiter \<and> stuck s < stuck_limit cfg
      then next_generation cfg ops f s # ga_trace cfg ops f maxiter (next_generation cfg ops f s)
      else [])"
  by pat_completeness auto
termination
  by (relation "measure (\<lambda>(cfg, ops, f, maxiter, s). maxiter - generation s)")
     (auto simp: next_generation_def Let_def split: prod.splits)

declare ga_trace.simps [simp del]

text \<open>The state in which the loop ends.\<close>

definition ga_final ::
    "ga_config \<Rightarrow> 'r variation \<Rightarrow> (point \<Rightarrow> real) \<Rightarrow> nat \<Rightarrow> 'r ga_state \<Rightarrow> 'r ga_state" where
  "ga_final cfg ops f maxiter s = last (s # ga_trace cfg ops f maxiter s)"






subsection \<open>The local optimizer adapter (4.3)\<close>











subsection \<open>The shared registry (4.5) and the run coordinator (4.4)\<close>










subsection \<open>Notions used to state the properties of the optimizers\<close>





subsection \<open>Concrete optimizers\<close>

















section \<open>Properties of the rounding of floats\<close>

text \<open>An integer rounds to itself, and rounding moves a number by at most one half.\<close>

lemma round_even_int: "round_even (of_int n) = n"
  by (simp add: round_even_def)

lemma round_even_err: "\<bar>of_int (round_even x) - x\<bar> \<le> 1 / 2"
  unfolding round_even_def Let_def by (auto; linarith)

lemma floor_log2_le:
  assumes "x \<noteq> 0" and "\<bar>x\<bar> < 2 powi k"
  shows "\<lfloor>log 2 \<bar>x\<bar>\<rfloor> < k"
proof -
  from assms have "log 2 \<bar>x\<bar> < of_int k"
    by (subst log_less_iff) (simp_all add: powr_real_of_int' power_int_def)
  then show ?thesis by linarith
qed


text \<open>A number with a significand of at most 53 bits is not moved.\<close>

lemma round_double_dyadic:
  assumes m: "\<bar>m\<bar> < 2 ^ 53" and k: "- 1074 \<le> k" "k \<le> 971"
  shows "round_double (of_int m * 2 powi k) = Fin (of_int m * 2 powi k)"
proof (cases "m = 0")
  case True
  then show ?thesis by (simp add: round_double_def)
next
  case False
  define x :: real where "x = of_int m * 2 powi k"
  define e where "e = ulp_exp x"
  have x0: "x \<noteq> 0" using False by (simp add: x_def)
  have "\<bar>x\<bar> = real_of_int \<bar>m\<bar> * 2 powi k" by (simp add: x_def abs_mult)
  also have "\<dots> < 2 ^ 53 * 2 powi k"
    using m by (intro mult_strict_right_mono) (simp_all flip: of_int_less_iff)
  also have "\<dots> = 2 powi (53 + k)" by (simp add: power_int_add)
  finally have b: "\<bar>x\<bar> < 2 powi (53 + k)" .
  from floor_log2_le [OF x0 b] k have e: "e \<le> k" by (simp add: ulp_exp_def e_def)
  define n where "n = nat (k - e)"
  have "2 powi k = (2::real) powi (int n + e)" using e by (simp add: n_def)
  also have "\<dots> = 2 ^ n * 2 powi e" by (simp add: power_int_add)
  finally have p: "(2::real) powi k = 2 ^ n * 2 powi e" .
  have q: "x / 2 powi e = of_int (m * 2 ^ n)" by (simp add: x_def p)
  have y: "of_int (round_even (x / 2 powi e)) * 2 powi e = x"
    unfolding q round_even_int by (simp add: x_def p)
  have "2 powi (53 + k) \<le> (2::real) powi 1024"
    using k by (intro power_int_increasing) simp_all
  also have "(2::real) powi 1024 = 2 ^ 1024"
    by (metis power_int_of_nat of_nat_numeral)
  finally have "\<bar>x\<bar> < 2 ^ 1024" using b by (rule less_le_trans [rotated])
  then have "\<not> 2 ^ 1024 \<le> \<bar>x\<bar>" by (simp only: not_le)
  then have "round_double x = Fin x"
    using x0 unfolding round_double_def Let_def e_def [symmetric] y by (simp only: if_False)
  then show ?thesis by (simp only: x_def)
qed

text \<open>The rounding error of a number of magnitude at most 8.\<close>

lemma round_double_err:
  assumes "\<bar>x\<bar> \<le> 8"
  shows "\<exists>y. round_double x = Fin y \<and> \<bar>y - x\<bar> \<le> 2 powi (- 50)"
proof (cases "x = 0")
  case True
  then show ?thesis by (simp add: round_double_def)
next
  case False
  let ?e = "ulp_exp x"
  let ?t = "x / 2 powi ?e"
  let ?y = "of_int (round_even ?t) * 2 powi ?e :: real"
  from assms have "\<bar>x\<bar> < 2 powi 4" by simp
  from floor_log2_le [OF False this] have e: "?e \<le> - 49" by (simp add: ulp_exp_def)
  have pos: "(0::real) < 2 powi ?e" by simp
  have "?y - x = (of_int (round_even ?t) - ?t) * 2 powi ?e" by (simp add: algebra_simps)
  then have "\<bar>?y - x\<bar> = \<bar>of_int (round_even ?t) - ?t\<bar> * 2 powi ?e"
    by (simp add: abs_mult)
  also have "\<dots> \<le> 1 / 2 * 2 powi ?e"
    by (intro mult_right_mono round_even_err) simp
  also have "\<dots> \<le> 1 / 2 * 2 powi (- 49)"
    using e by (intro mult_left_mono power_int_increasing) simp_all
  also have "\<dots> = 2 powi (- 50)" by (simp add: power_int_def field_simps)
  finally have err: "\<bar>?y - x\<bar> \<le> 2 powi (- 50)" .
  have "(2::real) powi (- 50) \<le> 1" by (simp add: power_int_def field_simps)
  with err assms have "\<bar>?y\<bar> \<le> 9" by linarith
  then have "\<not> 2 ^ 1024 \<le> \<bar>?y\<bar>" by simp
  then show ?thesis using False err unfolding round_double_def Let_def by simp
qed


text \<open>
  The rounding of a normal number, given the power of two below it; and the same with
  the number scaled to a significand of 53 bits.
\<close>

lemma round_double_eval:
  assumes lo: "2 powi e \<le> \<bar>x\<bar>" and hi: "\<bar>x\<bar> < 2 powi (e + 1)"
    and e: "- 1022 \<le> e" "e \<le> 1022"
  shows "round_double x = Fin (of_int (round_even (x / 2 powi (e - 52))) * 2 powi (e - 52))"
proof -
  have pos: "0 < \<bar>x\<bar>" using lo by (rule less_le_trans [rotated]) simp
  then have x0: "x \<noteq> 0" by simp
  have a: "2 powr real_of_int e = 2 powi e" by (simp add: powr_real_of_int')
  have c: "2 powr (real_of_int e + 1) = 2 powi (e + 1)"
    using powr_real_of_int' [of 2 "e + 1"] by simp
  have b: "2 powr real_of_int (e + 1) = 2 powi (e + 1)" using c by simp
  have "\<lfloor>log 2 \<bar>x\<bar>\<rfloor> = e"
  proof (subst floor_log_eq_powr_iff)
    show "0 < \<bar>x\<bar>" by (rule pos)
    show "(1::real) < 2" by simp
    show "2 powr real_of_int e \<le> \<bar>x\<bar> \<and> \<bar>x\<bar> < 2 powr real_of_int (e + 1)"
      unfolding a b using lo hi by (rule conjI)
  qed
  then have u: "ulp_exp x = e - 52" using e by (simp add: ulp_exp_def)
  let ?t = "x / 2 powi (e - 52)"
  let ?y = "of_int (round_even ?t) * 2 powi (e - 52) :: real"
  have "?y - x = (of_int (round_even ?t) - ?t) * 2 powi (e - 52)" by (simp add: algebra_simps)
  then have "\<bar>?y - x\<bar> = \<bar>of_int (round_even ?t) - ?t\<bar> * 2 powi (e - 52)"
    by (simp add: abs_mult)
  also have "\<dots> \<le> 1 / 2 * 2 powi (e - 52)"
    by (intro mult_right_mono round_even_err) simp
  also have "\<dots> \<le> 1 * 2 powi (e + 1)"
    by (intro mult_mono power_int_increasing) simp_all
  finally have "\<bar>?y\<bar> < 2 powi (e + 1) + 2 powi (e + 1)" using hi by linarith
  also have "\<dots> = 2 powi (e + 2)" by (simp add: power_int_add)
  also have "\<dots> \<le> 2 powi 1024" using e by (intro power_int_increasing) simp_all
  also have "(2::real) powi 1024 = 2 ^ 1024" by (metis power_int_of_nat of_nat_numeral)
  finally have "\<not> 2 ^ 1024 \<le> \<bar>?y\<bar>" by (simp only: not_le)
  then show ?thesis using x0 unfolding round_double_def Let_def u by (simp only: if_False)
qed

lemma round_double_scaled:
  assumes lo: "2 ^ 52 \<le> \<bar>x\<bar> * 2 ^ n" and hi: "\<bar>x\<bar> * 2 ^ n < 2 ^ 53" and n: "n \<le> 1074"
  shows "round_double x = Fin (of_int (round_even (x * 2 ^ n)) / 2 ^ n)"
proof -
  define e where "e = 52 - int n"
  have p: "\<And>k. (2::real) powi (k - int n) = 2 powi k / 2 ^ n"
    by (simp add: power_int_diff)
  have "(2::real) powi e = 2 ^ 52 / 2 ^ n" unfolding e_def p by simp
  also have "\<dots> \<le> \<bar>x\<bar>" using lo by (simp add: field_simps)
  finally have l: "2 powi e \<le> \<bar>x\<bar>" .
  have "\<bar>x\<bar> < 2 ^ 53 / 2 ^ n" using hi by (simp add: field_simps)
  also have "\<dots> = 2 powi (e + 1)" using p [of 53] by (simp add: e_def)
  finally have h: "\<bar>x\<bar> < 2 powi (e + 1)" .
  have q: "(2::real) powi (e - 52) = 1 / 2 ^ n" using p [of 0] by (simp add: e_def)
  from round_double_eval [OF l h] n show ?thesis
    unfolding q by (simp add: e_def)
qed


text \<open>
  The doubles are fixed by the rounding: an integer of less than 53 bits times a power
  of two within the range of the exponent.
\<close>

lemma round_double_int:
  assumes "\<bar>i\<bar> < 2 ^ 53"
  shows "round_double (of_int i) = Fin (of_int i)"
  using round_double_dyadic [OF assms, of 0] by simp

lemma round_double_frac:
  assumes "\<bar>m\<bar> < 2 ^ 53" and "n \<le> 1074"
  shows "round_double (of_int m / 2 ^ n) = Fin (of_int m / 2 ^ n)"
  using round_double_dyadic [OF assms(1), of "- int n"] assms(2)
  by (simp add: power_int_minus field_simps)

text \<open>
  An example of a product that is rounded: the float \<open>0.29\<close> is the double
  \<open>5224175567749775 / 2 ^ 54\<close>, and \<open>0.29 * 100\<close> is the double below 29, so that
  \<open>int(0.29 * 100)\<close> is 28.
\<close>

lemma round_double_example:
  "round_double (29 / 100) = Fin (5224175567749775 / 2 ^ 54)"
  "round_double (5224175567749775 / 2 ^ 54 * 100) = Fin (29 - 1 / 2 ^ 48)"
  using round_double_scaled [of "29 / 100" 54]
    round_double_scaled [of "5224175567749775 / 2 ^ 54 * 100" 48]
  by (simp_all add: round_even_def Let_def)

text \<open>The doubles used in the examples.\<close>

lemma round_double_values:
  "round_double 0 = Fin 0" "round_double 1 = Fin 1" "round_double 5 = Fin 5"
  "round_double 10 = Fin 10" "round_double 20 = Fin 20" "round_double 100 = Fin 100"
  "round_double (1 / 2) = Fin (1 / 2)" "round_double (1 / 4) = Fin (1 / 4)"
  "round_double (3 / 4) = Fin (3 / 4)" "round_double (5 / 8) = Fin (5 / 8)"
  using round_double_int [of 0] round_double_int [of 1] round_double_int [of 5]
    round_double_int [of 10] round_double_int [of 20] round_double_int [of 100]
    round_double_frac [of 1 1] round_double_frac [of 1 2] round_double_frac [of 3 2]
    round_double_frac [of 5 3]
  by simp_all

section \<open>Properties of the keyword arguments of an epoch\<close>


lemma for_each_dom:
  assumes "\<And>i s s'. i \<in> set js \<Longrightarrow> body i s = Inr s' \<Longrightarrow> dom s' = dom s \<union> K i"
    and "for_each js body s = Inr s'"
  shows "dom s' = dom s \<union> (\<Union>i\<in>set js. K i)"
  using assms
proof (induction js arbitrary: s)
  case Nil
  then show ?case by simp
next
  case (Cons j js)
  from Cons.prems(2) obtain s1 where b: "body j s = Inr s1" and r: "for_each js body s1 = Inr s'"
    by (auto split: sum.splits)
  have d1: "dom s1 = dom s \<union> K j" using Cons.prems(1) [of j s s1] b by simp
  have "dom s' = dom s1 \<union> (\<Union>i\<in>set js. K i)"
    using Cons.prems(1) by (intro Cons.IH [OF _ r]) auto
  with d1 show ?case by auto
qed

lemma for_each_keeps:
  assumes "\<And>i s s'. i \<in> set js \<Longrightarrow> body i s = Inr s' \<Longrightarrow> s' k = s k"
    and "for_each js body s = Inr s'"
  shows "s' k = s k"
  using assms
proof (induction js arbitrary: s)
  case Nil
  then show ?case by simp
next
  case (Cons j js)
  from Cons.prems(2) obtain s1 where b: "body j s = Inr s1" and r: "for_each js body s1 = Inr s'"
    by (auto split: sum.splits)
  have "s' k = s1 k" using Cons.prems(1) by (intro Cons.IH [OF _ r]) auto
  moreover have "s1 k = s k" using Cons.prems(1) [of j s s1] b by simp
  ultimately show ?case by simp
qed

lemma for_each_total:
  assumes "\<And>i s. i \<in> set js \<Longrightarrow> \<exists>s'. body i s = Inr s'"
  shows "\<exists>s'. for_each js body s = Inr s'"
  using assms
proof (induction js arbitrary: s)
  case Nil
  then show ?case by simp
next
  case (Cons j js)
  then obtain s1 where "body j s = Inr s1" by fastforce
  moreover have "\<exists>s'. for_each js body s1 = Inr s'" using Cons by simp
  ultimately show ?case by simp
qed

lemma fmt_d_nonempty: "fmt_d n \<noteq> []"
  by (subst fmt_d.simps) simp

lemma digit_char_inj: "a < 10 \<Longrightarrow> b < 10 \<Longrightarrow> digit_char a = digit_char b \<Longrightarrow> a = b"
proof -
  assume a: "a < 10" and b: "b < 10" and e: "digit_char a = digit_char b"
  have "(of_char (digit_char a) :: nat) = of_char (digit_char b)" using e by simp
  then show "a = b" using a b by (simp add: digit_char_def of_char_of)
qed

lemma fmt_d_small: "n < 10 \<Longrightarrow> fmt_d n = [digit_char n]"
  by (subst fmt_d.simps) simp

lemma fmt_d_two: "10 \<le> n \<Longrightarrow> n < 100 \<Longrightarrow> fmt_d n = [digit_char (n div 10), digit_char (n mod 10)]"
  by (subst fmt_d.simps) (simp add: fmt_d_small)

lemma fmt_d_three: "100 \<le> n \<Longrightarrow> n < 1000 \<Longrightarrow>
  fmt_d n = [digit_char (n div 100), digit_char (n div 10 mod 10), digit_char (n mod 10)]"
  by (subst fmt_d.simps) (simp add: fmt_d_two div_mult2_eq [symmetric])


lemma fmt_d_length_small: "n < 10 \<Longrightarrow> length (fmt_d n) = 1"
  by (simp add: fmt_d_small)

lemma fmt_d_length:
  "length (fmt_d n) = (if n < 10 then 1 else Suc (length (fmt_d (n div 10))))"
  by (subst fmt_d.simps) simp

lemma fmt_d_inj: "fmt_d a = fmt_d b \<Longrightarrow> a = b"
proof (induction a arbitrary: b rule: fmt_d.induct)
  case (1 n)
  show ?case
  proof (cases "n < 10")
    case True
    have lb: "length (fmt_d b) = 1" using "1.prems" True by (metis fmt_d_length_small)
    have "b < 10"
    proof (rule ccontr)
      assume "\<not> b < 10"
      then have "length (fmt_d b) = Suc (length (fmt_d (b div 10)))" by (simp add: fmt_d_length)
      with lb fmt_d_nonempty [of "b div 10"] show False by simp
    qed
    with True "1.prems" show ?thesis by (simp add: fmt_d_small digit_char_inj)
  next
    case False
    have "\<not> b < 10"
    proof
      assume "b < 10"
      then have "length (fmt_d n) = 1" using "1.prems" by (simp add: fmt_d_small)
      moreover have "length (fmt_d n) = Suc (length (fmt_d (n div 10)))"
        using False by (simp add: fmt_d_length)
      ultimately show False using fmt_d_nonempty [of "n div 10"] by simp
    qed
    have e: "fmt_d (n div 10) @ [digit_char (n mod 10)] = fmt_d (b div 10) @ [digit_char (b mod 10)]"
      using "1.prems" False \<open>\<not> b < 10\<close> fmt_d.simps [of n] fmt_d.simps [of b] by simp
    then have "fmt_d (n div 10) = fmt_d (b div 10)" and d: "digit_char (n mod 10) = digit_char (b mod 10)"
      by simp_all
    then have "n div 10 = b div 10" using "1.IH" False by simp
    moreover have "n mod 10 = b mod 10" using d by (intro digit_char_inj) simp_all
    ultimately show ?thesis by (metis div_mult_mod_eq)
  qed
qed

lemma fmt_d_len_cases:
  "n \<le> 110 \<Longrightarrow> (n < 10 \<and> length (fmt_d n) = 1) \<or> (10 \<le> n \<and> n < 100 \<and> length (fmt_d n) = 2)
     \<or> (100 \<le> n \<and> length (fmt_d n) = 3)"
  by (cases "n < 10"; cases "n < 100") (simp_all add: fmt_d_small fmt_d_two fmt_d_three)


lemma fmt_d_mixed:
  assumes a: "1 \<le> a" "a < 10" and b: "100 \<le> b" "b \<le> 110"
  shows "fmt_d a @ fmt_d b \<noteq> fmt_d i @ fmt_d i" and "fmt_d b @ fmt_d a \<noteq> fmt_d i @ fmt_d i"
proof -
  have fa: "fmt_d a = [digit_char a]" using a by (simp add: fmt_d_small)
  have fb: "fmt_d b = [digit_char (b div 100), digit_char (b div 10 mod 10), digit_char (b mod 10)]"
    using b by (simp add: fmt_d_three)
  have bs: "b = 100 \<or> b = 101 \<or> b = 102 \<or> b = 103 \<or> b = 104 \<or> b = 105 \<or> b = 106
      \<or> b = 107 \<or> b = 108 \<or> b = 109 \<or> b = 110"
    using b by arith
  show "fmt_d a @ fmt_d b \<noteq> fmt_d i @ fmt_d i"
  proof
    assume e: "fmt_d a @ fmt_d b = fmt_d i @ fmt_d i"
    then have "length (fmt_d a @ fmt_d b) = length (fmt_d i @ fmt_d i)" by simp
    then have "length (fmt_d i) = 2" by (simp add: fa fb)
    then obtain x y where fi: "fmt_d i = [x, y]"
      by (cases "fmt_d i"; cases "tl (fmt_d i)") auto
    from e have "digit_char a = digit_char (b div 10 mod 10)"
      and "digit_char (b div 100) = digit_char (b mod 10)"
      by (simp_all add: fa fb fi)
    then have "a = b div 10 mod 10" and "b div 100 = b mod 10"
      using a b by (auto intro!: digit_char_inj)
    with a bs show False by (elim disjE) simp_all
  qed
  show "fmt_d b @ fmt_d a \<noteq> fmt_d i @ fmt_d i"
  proof
    assume e: "fmt_d b @ fmt_d a = fmt_d i @ fmt_d i"
    then have "length (fmt_d b @ fmt_d a) = length (fmt_d i @ fmt_d i)" by simp
    then have "length (fmt_d i) = 2" by (simp add: fa fb)
    then obtain x y where fi: "fmt_d i = [x, y]"
      by (cases "fmt_d i"; cases "tl (fmt_d i)") auto
    from e have "digit_char (b div 100) = digit_char (b mod 10)"
      and "digit_char (b div 10 mod 10) = digit_char a"
      by (simp_all add: fa fb fi)
    then have "b div 100 = b mod 10" and "b div 10 mod 10 = a"
      using a b by (auto intro!: digit_char_inj)
    with a bs show False by (elim disjE) simp_all
  qed
qed

lemma fmt_d_no_square:
  assumes ne: "a \<noteq> b" and a: "1 \<le> a" "a \<le> 110" and b: "1 \<le> b" "b \<le> 110"
  shows "fmt_d a @ fmt_d b \<noteq> fmt_d i @ fmt_d i"
proof
  assume e: "fmt_d a @ fmt_d b = fmt_d i @ fmt_d i"
  then have "length (fmt_d a @ fmt_d b) = length (fmt_d i @ fmt_d i)" by simp
  then have len: "length (fmt_d a) + length (fmt_d b) = 2 * length (fmt_d i)" by simp
  show False
  proof (cases "length (fmt_d a) = length (fmt_d b)")
    case True
    with len have "length (fmt_d a) = length (fmt_d i)" by simp
    with e have "fmt_d a = fmt_d i" and "fmt_d b = fmt_d i" by simp_all
    then have "a = b" by (simp add: fmt_d_inj)
    with ne show False by simp
  next
    case False
    from fmt_d_len_cases [OF a(2)] fmt_d_len_cases [OF b(2)] False len
    have "(a < 10 \<and> 100 \<le> b) \<or> (b < 10 \<and> 100 \<le> a)" by arith
    then show False
      using fmt_d_mixed [of a b i] fmt_d_mixed [of b a i] a b e by auto
  qed
qed


lemma size_step_dom:
  "size_step ev v i s = Inr s' \<Longrightarrow>
   dom s' = dom s \<union> {if n_pop ev = 1 then ''nu'' else ''nu'' @ fmt_d (i + 1)}"
  by (auto simp: size_step_def Let_def split: option.splits sum.splits if_splits)

lemma size_step_T: "size_step ev v i s = Inr s' \<Longrightarrow> s' ''T'' = s ''T''"
  by (auto simp: size_step_def Let_def split: option.splits sum.splits if_splits)

lemma size_step_total:
  assumes "i < length (size_args ev)"
    and "case dyn_args ev of None \<Rightarrow> True | Some dyn \<Rightarrow> i < length dyn \<and> hashable (dyn ! i)"
  shows "\<exists>s'. size_step ev v i s = Inr s'"
  using assms
  by (auto simp: size_step_def Let_def index_def dict_get_def split: option.splits prod.splits)

lemma mig_step_dom:
  "mig_step mig i j s = Inr s' \<Longrightarrow>
   dom s' = dom s \<union> (if i = j then {} else {''m'' @ fmt_d (i + 1) @ fmt_d (j + 1)})"
  by (auto simp: mig_step_def split: sum.splits if_splits)

lemma mig_step_T: "mig_step mig i j s = Inr s' \<Longrightarrow> s' ''T'' = s ''T''"
  by (auto simp: mig_step_def split: sum.splits if_splits)

lemma mig_step_total:
  "i < length mig \<Longrightarrow> j < length (mig ! i) \<Longrightarrow> \<exists>s'. mig_step mig i j s = Inr s'"
  by (simp add: mig_step_def index_def)

lemma sel_block_loop:
  assumes "sel_block ev sel s = Inr s'"
  shows "0 < n_pop ev \<and>
    for_each [0..<n_pop ev]
      (\<lambda>i d. case index sel i of
                Inl e \<Rightarrow> Inl e
              | Inr x \<Rightarrow> Inr (d((if n_pop ev = 1 then ''gamma'' else ''gamma'' @ fmt_d (n_pop ev)) \<mapsto> x)))
      s = Inr s'"
proof (cases "n_pop ev = 1")
  case True
  with assms show ?thesis by (simp add: sel_block_def)
next
  case False
  with assms have pos: "0 < n_pop ev" by (auto simp: sel_block_def split: if_splits)
  then have eq: "n_pop ev - 1 + 1 = n_pop ev" by simp
  show ?thesis using assms False pos unfolding sel_block_def eq by simp
qed

lemma sel_block_dom:
  assumes "sel_block ev sel s = Inr s'"
  shows "dom s' = dom s \<union> {if n_pop ev = 1 then ''gamma'' else ''gamma'' @ fmt_d (n_pop ev)}"
proof -
  let ?k = "if n_pop ev = 1 then ''gamma'' else ''gamma'' @ fmt_d (n_pop ev)"
  from sel_block_loop [OF assms] have pos: "0 < n_pop ev"
    and l: "for_each [0..<n_pop ev]
      (\<lambda>i d. case index sel i of Inl e \<Rightarrow> Inl e | Inr x \<Rightarrow> Inr (d(?k \<mapsto> x))) s = Inr s'"
    by simp_all
  from l have "dom s' = dom s \<union> (\<Union>i\<in>set [0..<n_pop ev]. {?k})"
    by (rule for_each_dom [rotated]) (auto split: sum.splits)
  with pos show ?thesis by auto
qed

lemma sel_block_T:
  assumes "sel_block ev sel s = Inr s'"
  shows "s' ''T'' = s ''T''"
proof -
  let ?k = "if n_pop ev = 1 then ''gamma'' else ''gamma'' @ fmt_d (n_pop ev)"
  from sel_block_loop [OF assms]
  have l: "for_each [0..<n_pop ev]
      (\<lambda>i d. case index sel i of Inl e \<Rightarrow> Inl e | Inr x \<Rightarrow> Inr (d(?k \<mapsto> x))) s = Inr s'"
    by simp
  show ?thesis
    by (rule for_each_keeps [OF _ l]) (auto split: sum.splits if_splits)
qed

lemma sel_block_total:
  assumes "length sel = n_pop ev" and "0 < n_pop ev"
  shows "\<exists>s'. sel_block ev sel s = Inr s'"
  using assms unfolding sel_block_def
  by (auto intro!: for_each_total simp: index_def)


lemma Union_pairs:
  "(\<Union>i\<in>set [0..<n]. {f i j | j. j < n \<and> i \<noteq> j})
      = {f i j | i j. i < n \<and> j < n \<and> i \<noteq> (j::nat)}"
proof (intro set_eqI iffI)
  fix x assume "x \<in> (\<Union>i\<in>set [0..<n]. {f i j | j. j < n \<and> i \<noteq> j})"
  then obtain i j where "i < n" "j < n" "i \<noteq> j" "x = f i j" by auto
  then show "x \<in> {f i j | i j. i < n \<and> j < n \<and> i \<noteq> j}" by blast
next
  fix x assume "x \<in> {f i j | i j. i < n \<and> j < n \<and> i \<noteq> j}"
  then obtain i j where "i < n" "j < n" "i \<noteq> j" "x = f i j" by blast
  then show "x \<in> (\<Union>i\<in>set [0..<n]. {f i j | j. j < n \<and> i \<noteq> j})" by auto
qed

lemma mig_row_dom:
  assumes "for_each [0..<n] (mig_step mig i) s = Inr s'"
  shows "dom s' = dom s \<union> {''m'' @ fmt_d (i + 1) @ fmt_d (j + 1) | j. j < n \<and> i \<noteq> j}"
proof -
  have "dom s' = dom s \<union> (\<Union>j\<in>set [0..<n].
      if i = j then {} else {''m'' @ fmt_d (i + 1) @ fmt_d (j + 1)})"
    by (rule for_each_dom [OF _ assms]) (rule mig_step_dom)
  then show ?thesis by (auto split: if_splits)
qed

lemma mig_loop_dom:
  assumes "for_each [0..<n] (\<lambda>i. for_each [0..<n] (mig_step mig i)) s = Inr s'"
  shows "dom s' = dom s \<union> {''m'' @ fmt_d (i + 1) @ fmt_d (j + 1) | i j. i < n \<and> j < n \<and> i \<noteq> j}"
proof -
  have "dom s' = dom s \<union> (\<Union>i\<in>set [0..<n].
      {''m'' @ fmt_d (i + 1) @ fmt_d (j + 1) | j. j < n \<and> i \<noteq> j})"
    by (rule for_each_dom [OF _ assms]) (rule mig_row_dom)
  also have "(\<Union>i\<in>set [0..<n]. {''m'' @ fmt_d (i + 1) @ fmt_d (j + 1) | j. j < n \<and> i \<noteq> j})
      = {''m'' @ fmt_d (i + 1) @ fmt_d (j + 1) | i j. i < n \<and> j < n \<and> i \<noteq> j}"
    by (rule Union_pairs)
  finally show ?thesis .
qed

lemma mig_loop_T:
  assumes "for_each [0..<n] (\<lambda>i. for_each [0..<n] (mig_step mig i)) s = Inr s'"
  shows "s' ''T'' = s ''T''"
  by (rule for_each_keeps [OF _ assms], rule for_each_keeps) (auto dest: mig_step_T)

lemma size_loop_dom:
  assumes "for_each [0..<n] (size_step ev v) s = Inr s'"
  shows "dom s' = dom s \<union> {if n_pop ev = 1 then ''nu'' else ''nu'' @ fmt_d (i + 1) | i. i < n}"
proof -
  have "dom s' = dom s \<union> (\<Union>i\<in>set [0..<n].
      {if n_pop ev = 1 then ''nu'' else ''nu'' @ fmt_d (i + 1)})"
    by (rule for_each_dom [OF _ assms]) (rule size_step_dom)
  then show ?thesis by auto
qed

lemma size_loop_T:
  assumes "for_each [0..<n] (size_step ev v) s = Inr s'"
  shows "s' ''T'' = s ''T''"
  by (rule for_each_keeps [OF _ assms]) (rule size_step_T)

lemma get_kwargs_dom:
  assumes "get_kwargs ev v = Inr d"
  shows "d ''T'' = Some (time_arg ev)"
    and "dom d = {''T''}
      \<union> {if n_pop ev = 1 then ''nu'' else ''nu'' @ fmt_d (i + 1) | i. i < n_pop ev}
      \<union> (case mig_args ev of
           None \<Rightarrow> {}
         | Some mig \<Rightarrow> {''m'' @ fmt_d (i + 1) @ fmt_d (j + 1) | i j.
              i < n_pop ev \<and> j < n_pop ev \<and> i \<noteq> j})
      \<union> (case sel_args ev of
           None \<Rightarrow> {}
         | Some sel \<Rightarrow> {if n_pop ev = 1 then ''gamma'' else ''gamma'' @ fmt_d (n_pop ev)})"
proof -
  from assms obtain d1 d2 where
    l1: "for_each [0..<n_pop ev] (size_step ev v) [''T'' \<mapsto> time_arg ev] = Inr d1"
    and l2: "(case mig_args ev of None \<Rightarrow> Inr d1
        | Some mig \<Rightarrow> for_each [0..<n_pop ev] (\<lambda>i. for_each [0..<n_pop ev] (mig_step mig i)) d1)
        = Inr d2"
    and l3: "(case sel_args ev of None \<Rightarrow> Inr d2 | Some sel \<Rightarrow> sel_block ev sel d2) = Inr d"
    by (auto simp: get_kwargs_def split: sum.splits)
  have t1: "d1 ''T'' = Some (time_arg ev)" using size_loop_T [OF l1] by simp
  have t2: "d2 ''T'' = d1 ''T''" using l2 by (cases "mig_args ev") (simp_all add: mig_loop_T)
  have t3: "d ''T'' = d2 ''T''" using l3 by (cases "sel_args ev") (simp_all add: sel_block_T)
  show "d ''T'' = Some (time_arg ev)" using t1 t2 t3 by simp
  have s1: "dom d1 = {''T''}
      \<union> {if n_pop ev = 1 then ''nu'' else ''nu'' @ fmt_d (i + 1) | i. i < n_pop ev}"
    using size_loop_dom [OF l1] by simp
  have s2: "dom d2 = dom d1 \<union> (case mig_args ev of None \<Rightarrow> {}
         | Some mig \<Rightarrow> {''m'' @ fmt_d (i + 1) @ fmt_d (j + 1) | i j.
              i < n_pop ev \<and> j < n_pop ev \<and> i \<noteq> j})"
  proof (cases "mig_args ev")
    case None
    with l2 show ?thesis by simp
  next
    case (Some mig)
    with l2 show ?thesis by (simp add: mig_loop_dom)
  qed
  have s3: "dom d = dom d2 \<union> (case sel_args ev of None \<Rightarrow> {}
         | Some sel \<Rightarrow> {if n_pop ev = 1 then ''gamma'' else ''gamma'' @ fmt_d (n_pop ev)})"
  proof (cases "sel_args ev")
    case None
    with l3 show ?thesis by simp
  next
    case (Some sel)
    with l3 show ?thesis by (simp add: sel_block_dom)
  qed
  show "dom d = {''T''}
      \<union> {if n_pop ev = 1 then ''nu'' else ''nu'' @ fmt_d (i + 1) | i. i < n_pop ev}
      \<union> (case mig_args ev of
           None \<Rightarrow> {}
         | Some mig \<Rightarrow> {''m'' @ fmt_d (i + 1) @ fmt_d (j + 1) | i j.
              i < n_pop ev \<and> j < n_pop ev \<and> i \<noteq> j})
      \<union> (case sel_args ev of
           None \<Rightarrow> {}
         | Some sel \<Rightarrow> {if n_pop ev = 1 then ''gamma'' else ''gamma'' @ fmt_d (n_pop ev)})"
    unfolding s3 s2 s1 by (rule refl)
qed

lemma get_kwargs_total:
  assumes "epoch_wf ev"
  shows "\<exists>d. get_kwargs ev v = Inr d"
proof -
  from assms have sz: "length (size_args ev) = n_pop ev"
    and dy: "case dyn_args ev of
               None \<Rightarrow> True
             | Some dyn \<Rightarrow> length dyn = n_pop ev \<and> list_all hashable dyn"
    and mg: "case mig_args ev of None \<Rightarrow> True
       | Some mig \<Rightarrow> length mig = n_pop ev \<and> list_all (\<lambda>row. length row = n_pop ev) mig"
    and sl: "case sel_args ev of None \<Rightarrow> True | Some sel \<Rightarrow> length sel = n_pop ev \<and> 0 < n_pop ev"
    by (simp_all add: epoch_wf_def)
  have "\<exists>d1. for_each [0..<n_pop ev] (size_step ev v) [''T'' \<mapsto> time_arg ev] = Inr d1"
    using sz dy
    by (intro for_each_total size_step_total) (auto simp: list_all_length split: option.splits)
  then obtain d1 where
    l1: "for_each [0..<n_pop ev] (size_step ev v) [''T'' \<mapsto> time_arg ev] = Inr d1" ..
  have "\<exists>d2. (case mig_args ev of None \<Rightarrow> Inr d1
        | Some mig \<Rightarrow> for_each [0..<n_pop ev] (\<lambda>i. for_each [0..<n_pop ev] (mig_step mig i)) d1)
        = Inr d2"
  proof (cases "mig_args ev")
    case None
    then show ?thesis by simp
  next
    case (Some mig)
    with mg have "length mig = n_pop ev" and "\<And>i. i < n_pop ev \<Longrightarrow> length (mig ! i) = n_pop ev"
      by (simp_all add: list_all_length)
    then have "\<exists>d2. for_each [0..<n_pop ev] (\<lambda>i. for_each [0..<n_pop ev] (mig_step mig i)) d1 = Inr d2"
      by (intro for_each_total mig_step_total) simp_all
    with Some show ?thesis by simp
  qed
  then obtain d2 where l2: "(case mig_args ev of None \<Rightarrow> Inr d1
        | Some mig \<Rightarrow> for_each [0..<n_pop ev] (\<lambda>i. for_each [0..<n_pop ev] (mig_step mig i)) d1)
        = Inr d2" ..
  have "\<exists>d. (case sel_args ev of None \<Rightarrow> Inr d2 | Some sel \<Rightarrow> sel_block ev sel d2) = Inr d"
    using sl by (cases "sel_args ev") (simp_all add: sel_block_total)
  then show ?thesis using l1 l2 by (auto simp: get_kwargs_def)
qed


lemma get_kwargs_mem:
  assumes "get_kwargs ev v = Inr d"
  shows "(k \<in> dom d) =
     (k = ''T'' \<or>
      (\<exists>i<n_pop ev. k = (if n_pop ev = 1 then ''nu'' else ''nu'' @ fmt_d (i + 1))) \<or>
      (mig_args ev \<noteq> None \<and>
         (\<exists>i j. i < n_pop ev \<and> j < n_pop ev \<and> i \<noteq> j \<and> k = ''m'' @ fmt_d (i + 1) @ fmt_d (j + 1))) \<or>
      (sel_args ev \<noteq> None \<and>
         k = (if n_pop ev = 1 then ''gamma'' else ''gamma'' @ fmt_d (n_pop ev))))"
  unfolding get_kwargs_dom(2) [OF assms]
  by (cases "mig_args ev"; cases "sel_args ev") auto

text \<open>A dynamics argument that is a list cannot be looked up: \<open>TypeError\<close>.\<close>

lemma get_kwargs_unhashable:
  "get_kwargs \<lparr>time_arg = PObj ''T1'', n_pop = 1, size_args = [PObj ''nu1''],
      dyn_args = Some [PList []], mig_args = None, sel_args = None\<rparr> var2value = Inl TypeError"
  by (simp add: get_kwargs_def size_step_def index_def dict_get_def)

text \<open>
  C10. For a well-formed epoch \<open>_get_kwargs\<close> returns a dictionary, and every
  dictionary it returns maps \<open>'T'\<close> to the event's \<open>time_arg\<close>; has the single size
  key \<open>'nu'\<close> (and no numbered one) when the event has one population, and exactly the
  size keys \<open>'nu1'\<close> to \<open>'nuN'\<close> when it has \<open>N > 1\<close>; has, when migration arguments
  are present, a key \<open>'m{i}{j}'\<close> for every ordered pair of distinct populations; and
  has no key \<open>'m{i}{i}'\<close>: every migration key is written for a pair of distinct
  populations, and for the events that dadi integrates (one, two or three populations,
  lines 27 to 30 and 105 to 110) no key reads as \<open>'m{i}{i}'\<close>.
\<close>

theorem get_kwargs_keys:
  "(epoch_wf event \<longrightarrow> (\<exists>d. get_kwargs event var2value = Inr d)) \<and>
   (\<forall>d. get_kwargs event var2value = Inr d \<longrightarrow>
      d ''T'' = Some (time_arg event) \<and>
      (n_pop event = 1 \<longrightarrow> ''nu'' \<in> dom d \<and> (\<forall>i. ''nu'' @ fmt_d i \<notin> dom d)) \<and>
      (1 < n_pop event \<longrightarrow>
         ''nu'' \<notin> dom d \<and>
         (\<forall>i. (''nu'' @ fmt_d i \<in> dom d) = (1 \<le> i \<and> i \<le> n_pop event))) \<and>
      (mig_args event \<noteq> None \<longrightarrow>
         (\<forall>i j. 1 \<le> i \<and> i \<le> n_pop event \<and> 1 \<le> j \<and> j \<le> n_pop event \<and> i \<noteq> j \<longrightarrow>
            ''m'' @ fmt_d i @ fmt_d j \<in> dom d)) \<and>
      (\<forall>k \<in> dom d. k = ''T'' \<or> (\<exists>i. k = ''nu'' @ fmt_d i) \<or> k = ''nu'' \<or>
         (\<exists>i j. 1 \<le> i \<and> i \<le> n_pop event \<and> 1 \<le> j \<and> j \<le> n_pop event \<and> i \<noteq> j \<and>
            k = ''m'' @ fmt_d i @ fmt_d j) \<or>
         k = ''gamma'' \<or> k = ''gamma'' @ fmt_d (n_pop event)) \<and>
      (n_pop event \<le> 3 \<longrightarrow> (\<forall>i. ''m'' @ fmt_d i @ fmt_d i \<notin> dom d)))"
proof (intro conjI allI impI ballI)
  assume "epoch_wf event"
  then show "\<exists>d. get_kwargs event var2value = Inr d" by (rule get_kwargs_total)
next
  fix d assume "get_kwargs event var2value = Inr d"
  then show "d ''T'' = Some (time_arg event)" by (rule get_kwargs_dom(1))
next
  fix d assume g: "get_kwargs event var2value = Inr d" and n: "n_pop event = 1"
  show "''nu'' \<in> dom d" using n by (simp add: get_kwargs_mem [OF g])
next
  fix d i assume g: "get_kwargs event var2value = Inr d" and n: "n_pop event = 1"
  show "''nu'' @ fmt_d i \<notin> dom d" using n by (simp add: get_kwargs_mem [OF g] fmt_d_nonempty)
next
  fix d assume g: "get_kwargs event var2value = Inr d" and n: "1 < n_pop event"
  show "''nu'' \<notin> dom d"
    using n by (simp add: get_kwargs_mem [OF g] fmt_d_nonempty fmt_d_nonempty [symmetric])
next
  fix d i assume g: "get_kwargs event var2value = Inr d" and n: "1 < n_pop event"
  have "(\<exists>k<n_pop event. fmt_d i = fmt_d (k + 1)) = (1 \<le> i \<and> i \<le> n_pop event)"
  proof
    assume "\<exists>k<n_pop event. fmt_d i = fmt_d (k + 1)"
    then obtain k where "k < n_pop event" "i = k + 1" using fmt_d_inj by blast
    then show "1 \<le> i \<and> i \<le> n_pop event" by simp
  next
    assume "1 \<le> i \<and> i \<le> n_pop event"
    then have "i - 1 < n_pop event" "fmt_d i = fmt_d ((i - 1) + 1)" by auto
    then show "\<exists>k<n_pop event. fmt_d i = fmt_d (k + 1)" by blast
  qed
  then show "(''nu'' @ fmt_d i \<in> dom d) = (1 \<le> i \<and> i \<le> n_pop event)"
    using n by (simp add: get_kwargs_mem [OF g])
next
  fix d i j
  assume g: "get_kwargs event var2value = Inr d" and m: "mig_args event \<noteq> None"
    and ij: "1 \<le> i \<and> i \<le> n_pop event \<and> 1 \<le> j \<and> j \<le> n_pop event \<and> i \<noteq> j"
  from ij have "i - 1 < n_pop event" "j - 1 < n_pop event" "i - 1 \<noteq> j - 1"
    "''m'' @ fmt_d i @ fmt_d j = ''m'' @ fmt_d ((i - 1) + 1) @ fmt_d ((j - 1) + 1)"
    by auto
  then have "\<exists>a b. a < n_pop event \<and> b < n_pop event \<and> a \<noteq> b \<and>
      ''m'' @ fmt_d i @ fmt_d j = ''m'' @ fmt_d (a + 1) @ fmt_d (b + 1)"
    by blast
  then show "''m'' @ fmt_d i @ fmt_d j \<in> dom d"
    using m by (simp only: get_kwargs_mem [OF g]) simp
next
  fix d k assume g: "get_kwargs event var2value = Inr d" and k: "k \<in> dom d"
  from k consider (t) "k = ''T''"
    | (nu) i where "i < n_pop event" "k = (if n_pop event = 1 then ''nu'' else ''nu'' @ fmt_d (i + 1))"
    | (m) i j where "i < n_pop event" "j < n_pop event" "i \<noteq> j"
        "k = ''m'' @ fmt_d (i + 1) @ fmt_d (j + 1)"
    | (s) "k = (if n_pop event = 1 then ''gamma'' else ''gamma'' @ fmt_d (n_pop event))"
    unfolding get_kwargs_mem [OF g] by blast
  then show "k = ''T'' \<or> (\<exists>i. k = ''nu'' @ fmt_d i) \<or> k = ''nu'' \<or>
         (\<exists>i j. 1 \<le> i \<and> i \<le> n_pop event \<and> 1 \<le> j \<and> j \<le> n_pop event \<and> i \<noteq> j \<and>
            k = ''m'' @ fmt_d i @ fmt_d j) \<or>
         k = ''gamma'' \<or> k = ''gamma'' @ fmt_d (n_pop event)"
  proof cases
    case t
    then show ?thesis by simp
  next
    case nu
    then show ?thesis by (cases "n_pop event = 1") auto
  next
    case m
    then have "1 \<le> i + 1 \<and> i + 1 \<le> n_pop event \<and> 1 \<le> j + 1 \<and> j + 1 \<le> n_pop event \<and>
        i + 1 \<noteq> j + 1 \<and> k = ''m'' @ fmt_d (i + 1) @ fmt_d (j + 1)" by simp
    then show ?thesis by blast
  next
    case s
    then show ?thesis by (cases "n_pop event = 1") auto
  qed
next
  fix d i assume g: "get_kwargs event var2value = Inr d" and n3: "n_pop event \<le> 3"
  then have n: "n_pop event \<le> 110" by simp
  have "\<not> (\<exists>a b. a < n_pop event \<and> b < n_pop event \<and> a \<noteq> b \<and>
      ''m'' @ fmt_d i @ fmt_d i = ''m'' @ fmt_d (a + 1) @ fmt_d (b + 1))"
  proof
    assume "\<exists>a b. a < n_pop event \<and> b < n_pop event \<and> a \<noteq> b \<and>
      ''m'' @ fmt_d i @ fmt_d i = ''m'' @ fmt_d (a + 1) @ fmt_d (b + 1)"
    then obtain a b where ab: "a < n_pop event" "b < n_pop event" "a \<noteq> b"
      and e: "fmt_d (a + 1) @ fmt_d (b + 1) = fmt_d i @ fmt_d i" by auto
    from ab n have "a + 1 \<noteq> b + 1" "1 \<le> a + 1" "a + 1 \<le> 110" "1 \<le> b + 1" "b + 1 \<le> 110"
      by simp_all
    from fmt_d_no_square [OF this] e show False by simp
  qed
  then show "''m'' @ fmt_d i @ fmt_d i \<notin> dom d"
    by (simp only: get_kwargs_mem [OF g]) simp
qed

text \<open>
  The theorem at an epoch of two populations with migrations, the first of constant
  size and the second with a dynamics that \<open>var2value\<close> fixes.
\<close>

theorem get_kwargs_keys_witness:
  "\<exists>d. get_kwargs \<lparr>time_arg = PObj ''T1'', n_pop = 2, size_args = [PObj ''nu1'', PObj ''nu2''],
          dyn_args = Some [PStr ''Sud'', PObj ''dyn2''],
          mig_args = Some [[PInt 0, PObj ''m12''], [PObj ''m21'', PInt 0]],
          sel_args = None\<rparr> [(PObj ''dyn2'', PStr ''Exp'')] = Inr d \<and>
       d ''T'' = Some (PObj ''T1'') \<and> ''nu1'' \<in> dom d \<and> ''nu2'' \<in> dom d \<and> ''nu'' \<notin> dom d \<and>
       ''m12'' \<in> dom d \<and> ''m21'' \<in> dom d \<and> ''m11'' \<notin> dom d \<and> ''m22'' \<notin> dom d"
proof -
  let ?ev = "\<lparr>time_arg = PObj ''T1'', n_pop = 2, size_args = [PObj ''nu1'', PObj ''nu2''],
          dyn_args = Some [PStr ''Sud'', PObj ''dyn2''],
          mig_args = Some [[PInt 0, PObj ''m12''], [PObj ''m21'', PInt 0]],
          sel_args = None\<rparr>"
  let ?v = "[(PObj ''dyn2'', PStr ''Exp'')]"
  have wf: "epoch_wf ?ev" by (simp add: epoch_wf_def)
  have f: "fmt_d 1 = ''1''" "fmt_d (Suc 0) = ''1''" "fmt_d 2 = ''2''" by code_simp+
  from get_kwargs_keys [of ?ev ?v] wf obtain d where
    g: "get_kwargs ?ev ?v = Inr d" by blast
  from get_kwargs_keys [of ?ev ?v] g
  have "d ''T'' = Some (PObj ''T1'')" and "''nu'' \<notin> dom d"
    and nu: "\<And>i. (''nu'' @ fmt_d i \<in> dom d) = (1 \<le> i \<and> i \<le> 2)"
    and m: "\<And>i j. 1 \<le> i \<and> i \<le> 2 \<and> 1 \<le> j \<and> j \<le> 2 \<and> i \<noteq> j \<Longrightarrow> ''m'' @ fmt_d i @ fmt_d j \<in> dom d"
    and s: "\<And>i. ''m'' @ fmt_d i @ fmt_d i \<notin> dom d"
    by simp_all
  moreover from nu [of 1] nu [of 2] have "''nu1'' \<in> dom d" "''nu2'' \<in> dom d" by (simp_all add: f)
  moreover from m [of 1 2] m [of 2 1] have "''m12'' \<in> dom d" "''m21'' \<in> dom d" by (simp_all add: f)
  moreover from s [of 1] s [of 2] have "''m11'' \<notin> dom d" "''m22'' \<notin> dom d" by (simp_all add: f)
  ultimately show ?thesis using g by blast
qed
section \<open>Properties of the settings storage\<close>

subsection \<open>Names that the module does not bind\<close>

lemma resolve_classes:
  "resolve_name setattr_locals ''PopulationSizeVariable'' = Some (NameError ''PopulationSizeVariable'')"
  "resolve_name setattr_locals ''TimeVariable'' = Some (NameError ''TimeVariable'')"
  "resolve_name setattr_locals ''MigrationVariable'' = Some (NameError ''MigrationVariable'')"
  by (simp_all add: resolve_name_def module_globals_def python_builtins_def setattr_locals_def)

text \<open>
  C9. A call of \<open>from_file\<close> with \<open>param_file = None\<close> fails with the \<open>NameError\<close> of
  the unbound name \<open>extra_params_file\<close>, whatever the second argument is (also
  \<open>None\<close>): no storage is returned and the state is as before the call.
\<close>

theorem from_file_name_error:
  "from_file env w None extra_param_file = Inl (NameError ''extra_params_file'', w)"
  by (simp add: from_file_def resolve_name_def module_globals_def python_builtins_def)

subsection \<open>Blocks in sequence\<close>

lemma run_phases_append:
  "run_phases (ps @ qs) w v =
     (case run_phases ps w v of Inl e \<Rightarrow> Inl e | Inr (w', v') \<Rightarrow> run_phases qs w' v')"
  by (induction ps arbitrary: w v) (auto split: sum.splits)



subsection \<open>Assigning a bound\<close>

text \<open>Only five names have a special default in \<open>__getattr__\<close>.\<close>

lemma getattr_plain_name:
  assumes "name \<noteq> ''initial_structure''" "name \<noteq> ''final_structure''"
    "name \<noteq> ''parameter_identifiers''" "name \<noteq> ''lower_bound''" "name \<noteq> ''upper_bound''"
  shows "getattr env w name = (getattr_plain env w name, w)"
  using assms
  by (auto simp: getattr_def getattr_gen_def dunder_getattr_def getattr_plain_def
      split: option.splits)

lemma bounds_cases:
  "name \<in> set bounds_attrs \<Longrightarrow>
     name = ''min_n'' \<or> name = ''max_n'' \<or> name = ''min_t'' \<or> name = ''max_t'' \<or>
     name = ''min_m'' \<or> name = ''max_m''"
  by (simp add: bounds_attrs_def)

lemma bounds_recognized: "name \<in> set bounds_attrs \<Longrightarrow> recognized name"
  by (simp add: recognized_def)

lemma bounds_skipped:
  assumes "name \<in> set bounds_attrs"
  shows "structure_as_list name w v = (w, v)"
    and "check_int name chk w v = Inr (w, v)"
    and "check_bool name chk w v = Inr (w, v)"
    and "check_int_list env name chk w v = Inr (w, v)"
    and "check_float_list env name chk w v = Inr (w, v)"
    and "split_labels name w v = Inr (w, v)"
    and "check_parameter_identifiers env name w v = Inr (w, v)"
    and "check_mutation_const name w v = Inr (w, v)"
    and "check_vmin name w v = Inr (w, v)"
  using bounds_cases [OF assms]
  by (auto simp: structure_as_list_def check_int_def check_bool_def check_int_list_def
      check_float_list_def split_labels_def check_parameter_identifiers_def
      check_mutation_const_def check_vmin_def int_attrs_def bool_attrs_def int_list_attrs_def
      probs_list_attrs_def float_list_attrs_def)
lemma bounds_paths:
  assumes "name \<in> set bounds_attrs"
  shows "check_paths env name w v = Inr (w, v)"
proof -
  from bounds_cases [OF assms] have "name \<notin> set empty_dir_attrs" "name \<notin> set exist_file_attrs"
    "name \<notin> set exist_dir_attrs"
    by (auto simp: empty_dir_attrs_def exist_file_attrs_def exist_dir_attrs_def)
  then show ?thesis by (simp add: check_paths_def)
qed

lemma bounds_domain_fails:
  assumes "name \<in> set bounds_attrs"
  shows "\<exists>c. set_default_domain name w v = Inl (NameError c, w)"
  using bounds_cases [OF assms]
  by (elim disjE) (simp_all add: set_default_domain_def assign_domain_def resolve_classes)

lemma bounds_dependents:
  assumes "name \<in> set bounds_attrs"
  shows "\<exists>c. dependents G env name w v = Inl (NameError c, w)"
proof -
  from bounds_domain_fails [OF assms] obtain c where
    c: "set_default_domain name w v = Inl (NameError c, w)" by blast
  from bounds_cases [OF assms] have n: "name \<noteq> ''input_file''" "name \<notin> set data_holder_attrs"
    "name \<noteq> ''engine''" "name \<noteq> ''local_optimizer''" "name \<notin> set [''engine'', ''pts'']"
    "name \<noteq> ''number_of_populations''" "name \<noteq> ''fractions''" "name \<noteq> ''size_of_generation''"
    "name \<noteq> ''units_of_time_in_drawing''" "name \<noteq> ''const_of_time_in_drawing''"
    by (auto simp: data_holder_attrs_def)
  have "dependents G env name w v =
      (case set_default_domain name w v of Inl e \<Rightarrow> Inl e | Inr w' \<Rightarrow> Inr (w', v))"
    using n assms by (simp add: dependents_def)
  with c show ?thesis by simp
qed

lemma loop_names_world:
  assumes "\<And>n w. n \<in> set ns \<Longrightarrow> left_world (body n w) = w"
  shows "left_world (loop_names ns body w) = w"
  using assms
proof (induction ns arbitrary: w)
  case Nil
  then show ?case by (simp add: left_world_def)
next
  case (Cons n ns)
  show ?case
  proof (cases "body n w")
    case (Inl a)
    with Cons.prems [of n w] show ?thesis by (simp add: left_world_def)
  next
    case (Inr w1)
    with Cons.prems [of n w] have "w1 = w" by (simp add: left_world_def)
    with Inr Cons show ?thesis by simp
  qed
qed

lemma check_float_world: "phase_world (check_float name chk w v) = w"
  by (auto simp: check_float_def phase_world_def split: sum.splits)

lemma bounds_equal_len_step:
  assumes "attr \<in> set bounds_attrs"
  shows "left_world (equal_len_step (getattr env) name v attr w) = w"
proof -
  from bounds_cases [OF assms] have "getattr env w attr = (getattr_plain env w attr, w)"
    by (intro getattr_plain_name) auto
  then show ?thesis
    by (auto simp: equal_len_step_def left_world_def split: sum.splits)
qed

lemma bounds_equal_len:
  assumes "name \<in> set bounds_attrs"
  shows "phase_world (check_equal_len (getattr env) name chk w v) = w"
proof -
  from bounds_cases [OF assms] have n: "name \<notin> set attrs_with_equal_len"
    by (auto simp: attrs_with_equal_len_def)
  have l: "left_world (loop_names bounds_attrs (equal_len_step (getattr env) name v) w) = w"
    by (rule loop_names_world) (rule bounds_equal_len_step)
  have c: "\<And>w1. check_populations (getattr env) name w1 = Inr w1"
    using assms by (simp add: check_populations_def)
  show ?thesis
    using l n assms
    by (auto simp: check_equal_len_def phase_world_def left_world_def c split: sum.splits)
qed

text \<open>
  C7 (what the code does). Assigning one of \<open>min_n\<close>, \<open>max_n\<close>, \<open>min_t\<close>,
  \<open>max_t\<close>, \<open>min_m\<close>, \<open>max_m\<close> always raises: the value is stored on the object
  (line 95), but no default domain is changed and no warning is emitted. When the value
  equals the default of \<open>settings\<close> the checks are skipped and the exception is the
  \<open>NameError\<close> of the variable class, which the module does not import; otherwise it
  comes from the checks (block 1.6 takes \<open>len\<close> of the number).
\<close>

theorem bound_assignment_fails:
  assumes "name \<in> set bounds_attrs"
  shows "\<exists>e. setattr env w name value = (Some e, store name value w) \<and>
           (\<not> we_check env name value \<longrightarrow> (\<exists>cls. e = NameError cls)) \<and>
           default_domain (store name value w) = default_domain w \<and>
           warnings (store name value w) = warnings w"
proof -
  let ?w1 = "store name value w"
  let ?chk = "we_check env name value"
  let ?G = "getattr env"
  have w1: "default_domain ?w1 = default_domain w" "warnings ?w1 = warnings w"
    by (simp_all add: store_def)
  have nochk: "\<not> ?chk \<Longrightarrow> check_float name ?chk ?w1 value = Inr (?w1, value)"
    "\<not> ?chk \<Longrightarrow> check_equal_len ?G name ?chk ?w1 value = Inr (?w1, value)"
    by (simp_all add: check_float_def check_equal_len_def)
  show ?thesis
  proof (cases "check_float name ?chk ?w1 value")
    case (Inl a)
    then obtain e w' where a: "a = (e, w')" by (cases a)
    with Inl check_float_world [of name "?chk" "?w1" "value"] have "w' = ?w1"
      by (simp add: phase_world_def)
    with Inl a w1 assms nochk show ?thesis
      by (auto simp: setattr_def setattr_gen_def bounds_recognized bounds_skipped bounds_paths)
  next
    case (Inr b)
    have b: "b = (?w1, value)"
      using Inr by (auto simp: check_float_def split: if_splits sum.splits)
    show ?thesis
    proof (cases "check_equal_len ?G name ?chk ?w1 value")
      case (Inl a)
      then obtain e w' where a: "a = (e, w')" by (cases a)
      with Inl bounds_equal_len [OF assms, of env "?chk" "?w1" "value"] have "w' = ?w1"
        by (simp add: phase_world_def)
      with Inl a w1 assms Inr b nochk show ?thesis
        by (auto simp: setattr_def setattr_gen_def bounds_recognized bounds_skipped bounds_paths)
    next
      case (Inr c)
      then obtain w2 v2 where c: "c = (w2, v2)" by (cases c)
      with Inr bounds_equal_len [OF assms, of env "?chk" "?w1" "value"] have w2: "w2 = ?w1"
        by (simp add: phase_world_def)
      from bounds_dependents [OF assms, of "?G" env "?w1" v2] obtain cls where
        d: "dependents ?G env name ?w1 v2 = Inl (NameError cls, ?w1)" by blast
      from Inr c w2 d w1 assms \<open>check_float name ?chk ?w1 value = Inr b\<close> b show ?thesis
        by (simp add: setattr_def setattr_gen_def bounds_recognized bounds_skipped bounds_paths)
    qed
  qed
qed

text \<open>
  The theorem at \<open>min_n = 0.5\<close> (not the default: \<open>TypeError\<close> from \<open>len(value)\<close>) and
  at \<open>min_n = 0.0078125\<close> (the default of this environment: \<open>NameError\<close>).
\<close>

theorem bound_assignment_fails_witness:
  "setattr env0 world0 ''min_n'' (PFloat (Fin (1 / 2)))
     = (Some TypeError, store ''min_n'' (PFloat (Fin (1 / 2))) world0) \<and>
   setattr env0 world0 ''min_n'' (PFloat (Fin (1 / 128)))
     = (Some (NameError ''PopulationSizeVariable''), store ''min_n'' (PFloat (Fin (1 / 128))) world0) \<and>
   default_domain (store ''min_n'' (PFloat (Fin (1 / 2))) world0) ''PopulationSizeVariable''
     = [PFloat (Fin (1 / 128)), PFloat (Fin 128)] \<and>
   warnings (store ''min_n'' (PFloat (Fin (1 / 2))) world0) = []"
proof -
  have m: "''min_n'' \<in> set bounds_attrs" by (simp add: bounds_attrs_def)
  have t: "setattr env0 world0 ''min_n'' (PFloat (Fin (1 / 2)))
     = (Some TypeError, store ''min_n'' (PFloat (Fin (1 / 2))) world0)"
    by (simp add: setattr_def setattr_gen_def recognized_def structure_as_list_def we_check_def
        env0_def bounds_skipped bounds_paths bounds_attrs_def check_float_def float_attrs_def
        is_int_def is_float_def probs_attrs_def check_equal_len_def attrs_with_equal_len_def
        equal_len_step_def getattr_plain_name getattr_plain_def store_def py_len_def)
  have c: "\<not> we_check env0 ''min_n'' (PFloat (Fin (1 / 128)))"
    by (simp add: we_check_def env0_def)
  from bound_assignment_fails [OF m, of env0 world0 "PFloat (Fin (1 / 128))"] c
  obtain cls where n: "setattr env0 world0 ''min_n'' (PFloat (Fin (1 / 128)))
     = (Some (NameError cls), store ''min_n'' (PFloat (Fin (1 / 128))) world0)"
    by auto
  have "dependents (getattr env0) env0 ''min_n'' (store ''min_n'' (PFloat (Fin (1 / 128))) world0)
          (PFloat (Fin (1 / 128)))
        = Inl (NameError ''PopulationSizeVariable'', store ''min_n'' (PFloat (Fin (1 / 128))) world0)"
    by (simp add: dependents_def data_holder_attrs_def bounds_attrs_def set_default_domain_def
        assign_domain_def resolve_classes)
  then have "setattr env0 world0 ''min_n'' (PFloat (Fin (1 / 128)))
     = (Some (NameError ''PopulationSizeVariable''), store ''min_n'' (PFloat (Fin (1 / 128))) world0)"
    using m c
    by (simp add: setattr_def setattr_gen_def bounds_recognized bounds_skipped bounds_paths
        structure_as_list_def check_float_def check_equal_len_def)
  moreover from bound_assignment_fails [OF m, of env0 world0 "PFloat (Fin (1 / 2))"]
  have "default_domain (store ''min_n'' (PFloat (Fin (1 / 2))) world0) = default_domain world0"
    and "warnings (store ''min_n'' (PFloat (Fin (1 / 2))) world0) = warnings world0"
    by auto
  ultimately show ?thesis using t by (simp add: world0_def)
qed

subsection \<open>Assigning the fractions or the size of a generation\<close>

lemma getattr_ga_names:
  "getattr env w ''fractions'' = (getattr_plain env w ''fractions'', w)"
  "getattr env w ''size_of_generation'' = (getattr_plain env w ''size_of_generation'', w)"
  by (simp_all add: getattr_plain_name)

lemma getattr_plain_store:
  "k \<noteq> name \<Longrightarrow> getattr_plain env (store k v w) name = getattr_plain env w name"
  by (simp add: getattr_plain_def store_def)

lemma derive_ga_options_result:
  assumes "derive_ga_options (getattr env) env w = Inr w'"
  shows "\<exists>fr sz f0 f1 f2 pr n tot p.
           getattr_plain env w ''fractions'' = Inr fr \<and>
           getattr_plain env w ''size_of_generation'' = Inr sz \<and>
           py_item fr 0 = Inr f0 \<and> py_item fr 1 = Inr f1 \<and> py_item fr 2 = Inr f2 \<and>
           py_mul f0 sz = Inr pr \<and> py_int env pr = Inr n \<and>
           py_sum fr = Inr tot \<and> one_minus tot = Inr p \<and>
           w' = store ''p_random'' p (store ''p_crossover'' f2 (store ''p_mutation'' f1
                  (store ''n_elitism'' n w)))"
  using assms
  by (auto simp: derive_ga_options_def getattr_ga_names getattr_plain_store split: sum.splits)

lemma ga_names_recognized:
  "recognized ''fractions''" "recognized ''size_of_generation''"
  by (simp_all add: recognized_def probs_list_attrs_def int_attrs_def)

lemma fractions_phases:
  "structure_as_list ''fractions'' w v = (w, v)"
  "check_int ''fractions'' chk w v = Inr (w, v)"
  "check_float ''fractions'' chk w v = Inr (w, v)"
  "check_bool ''fractions'' chk w v = Inr (w, v)"
  "check_int_list env ''fractions'' chk w v = Inr (w, v)"
  "check_equal_len G ''fractions'' chk w v = Inr (w, v)"
  "split_labels ''fractions'' w v = Inr (w, v)"
  "check_paths env ''fractions'' w v = Inr (w, v)"
  "check_parameter_identifiers env ''fractions'' w v = Inr (w, v)"
  "check_mutation_const ''fractions'' w v = Inr (w, v)"
  "check_vmin ''fractions'' w v = Inr (w, v)"
  "dependents G env ''fractions'' w v
     = (case derive_ga_options G env w of Inl e \<Rightarrow> Inl e | Inr w' \<Rightarrow> Inr (w', v))"
  "custom_model env ''fractions'' w v = Inr (w, v)"
  "warn_bounds G ''fractions'' w v = Inr (w, v)"
  "warn_structure G ''fractions'' w v = Inr (w, v)"
  by (simp_all add: structure_as_list_def check_int_def check_float_def check_bool_def
      check_int_list_def check_equal_len_def split_labels_def check_paths_def
      check_parameter_identifiers_def check_mutation_const_def check_vmin_def dependents_def
      custom_model_def warn_bounds_def warn_structure_def int_attrs_def float_attrs_def
      probs_attrs_def bool_attrs_def int_list_attrs_def attrs_with_equal_len_def
      bounds_attrs_def empty_dir_attrs_def exist_file_attrs_def exist_dir_attrs_def
      data_holder_attrs_def)

lemma size_phases:
  "structure_as_list ''size_of_generation'' w v = (w, v)"
  "check_float ''size_of_generation'' chk w v = Inr (w, v)"
  "check_bool ''size_of_generation'' chk w v = Inr (w, v)"
  "check_int_list env ''size_of_generation'' chk w v = Inr (w, v)"
  "check_float_list env ''size_of_generation'' chk w v = Inr (w, v)"
  "check_equal_len G ''size_of_generation'' chk w v = Inr (w, v)"
  "split_labels ''size_of_generation'' w v = Inr (w, v)"
  "check_paths env ''size_of_generation'' w v = Inr (w, v)"
  "check_parameter_identifiers env ''size_of_generation'' w v = Inr (w, v)"
  "check_mutation_const ''size_of_generation'' w v = Inr (w, v)"
  "check_vmin ''size_of_generation'' w v = Inr (w, v)"
  "dependents G env ''size_of_generation'' w v
     = (case derive_ga_options G env w of Inl e \<Rightarrow> Inl e | Inr w' \<Rightarrow> Inr (w', v))"
  "custom_model env ''size_of_generation'' w v = Inr (w, v)"
  "warn_bounds G ''size_of_generation'' w v = Inr (w, v)"
  "warn_structure G ''size_of_generation'' w v = Inr (w, v)"
  by (simp_all add: structure_as_list_def check_float_def check_bool_def
      check_int_list_def check_float_list_def check_equal_len_def split_labels_def
      check_paths_def check_parameter_identifiers_def check_mutation_const_def check_vmin_def
      dependents_def custom_model_def warn_bounds_def warn_structure_def float_attrs_def
      probs_attrs_def bool_attrs_def int_list_attrs_def probs_list_attrs_def
      float_list_attrs_def attrs_with_equal_len_def bounds_attrs_def empty_dir_attrs_def
      exist_file_attrs_def exist_dir_attrs_def data_holder_attrs_def)

text \<open>What the checks leave behind when they accept the value.\<close>

lemma map_opt_floats: "map_opt (py_float env) (map PFloat rs) = Some (map PFloat rs)"
  by (induction rs) (simp_all add: py_float_def)

lemma check_float_list_result:
  assumes "check_float_list env ''fractions'' chk w value = Inr (w2, v2)"
    and "attrs w ''fractions'' = Some value"
  shows "attrs w2 ''fractions'' = Some v2 \<and>
         (if chk then float_list env value = Some v2 else v2 = value)"
proof (cases chk)
  case False
  with assms show ?thesis by (simp add: check_float_list_def)
next
  case True
  show ?thesis
  proof (cases "is_str value")
    case s: True
    then obtain t where t: "value = PStr t" by (cases "value") (simp_all add: is_str_def)
    show ?thesis
      using assms True
      by (auto simp: check_float_list_def probs_list_attrs_def float_list_def t Let_def
          is_seq_def elems_def map_opt_floats store_def split: option.splits if_splits)
  next
    case s: False
    then have c: "(case value of PStr s \<Rightarrow> f s | _ \<Rightarrow> g) = g" for f and g :: 'a
      by (cases "value") (simp_all add: is_str_def)
    show ?thesis
      using assms True
      by (auto simp: check_float_list_def probs_list_attrs_def float_list_def c Let_def
          store_def split: option.splits if_splits)
  qed
qed

lemma ga_assignment_derives:
  assumes "name = ''fractions'' \<or> name = ''size_of_generation''"
    and "setattr env w name value = (None, w')"
  shows "\<exists>w2 v2. derive_ga_options (getattr env) env w2 = Inr w' \<and>
           attrs w2 name = Some v2 \<and>
           (if name = ''fractions'' \<and> we_check env name value
            then float_list env value = Some v2 else v2 = value)"
  using assms(1)
proof
  assume n: "name = ''fractions''"
  let ?w0 = "store ''fractions'' value w"
  let ?chk = "we_check env ''fractions'' value"
  from assms(2) n obtain w2 v2 where
    c: "check_float_list env ''fractions'' ?chk ?w0 value = Inr (w2, v2)"
    and d: "derive_ga_options (getattr env) env w2 = Inr w'"
    by (auto simp: setattr_def setattr_gen_def ga_names_recognized fractions_phases Let_def
        split: sum.splits prod.splits)
  have "attrs ?w0 ''fractions'' = Some value" by (simp add: store_def)
  from check_float_list_result [OF c this] d n show ?thesis
    by (intro exI [of _ w2] exI [of _ v2]) simp
next
  assume n: "name = ''size_of_generation''"
  let ?w0 = "store ''size_of_generation'' value w"
  let ?chk = "we_check env ''size_of_generation'' value"
  from assms(2) n obtain w2 v2 where
    c: "check_int ''size_of_generation'' ?chk ?w0 value = Inr (w2, v2)"
    and d: "derive_ga_options (getattr env) env w2 = Inr w'"
    by (auto simp: setattr_def setattr_gen_def ga_names_recognized size_phases Let_def
        split: sum.splits prod.splits)
  from c have "w2 = ?w0 \<and> v2 = value"
    by (auto simp: check_int_def split: if_splits sum.splits)
  then have "attrs w2 ''size_of_generation'' = Some value" by (simp add: store_def)
  with d n \<open>w2 = ?w0 \<and> v2 = value\<close> show ?thesis
    by (intro exI [of _ w2] exI [of _ v2]) simp
qed

text \<open>
  The arithmetic of block 3.7 on a list of three finite floats between 0 and 1 and an
  integer size: the product and the sum are rounded.
\<close>

lemma elitism_value:
  assumes "py_mul (PFloat (Fin r0)) (PInt k) = Inr pr" and "py_int env pr = Inr n"
  shows "\<exists>kd z. round_double (real_of_int k) = Fin kd \<and> round_double (r0 * kd) = Fin z \<and>
           n = PInt (trunc z)"
proof -
  from assms(1) obtain kd where kd: "round_double (real_of_int k) = Fin kd"
    and pr: "pr = PFloat (round_double (r0 * kd))"
    by (auto simp: py_mul_def int_of_def float_op_def as_float_def float_of_int_def
        split: pyfloat.splits)
  from assms(2) pr obtain z where "round_double (r0 * kd) = Fin z" "n = PInt (trunc z)"
    by (cases "round_double (r0 * kd)") (simp_all add: py_int_def)
  with kd show ?thesis by blast
qed

lemma random_value:
  assumes r: "0 \<le> r0" "r0 \<le> 1" "0 \<le> r1" "r1 \<le> 1" "0 \<le> r2" "r2 \<le> 1"
    and t: "py_sum (PList [PFloat (Fin r0), PFloat (Fin r1), PFloat (Fin r2)]) = Inr tot"
    and p: "one_minus tot = Inr p"
  shows "\<exists>c. p = PFloat (Fin c) \<and> \<bar>r1 + r2 + c - (1 - r0)\<bar> \<le> 1 / 2 ^ 48"
proof -
  define eps :: real where "eps = 2 powi (- 50)"
  have eps: "0 \<le> eps" "eps \<le> 1" "4 * eps = 1 / 2 ^ 48"
    by (simp_all add: eps_def power_int_def field_simps)
  have z: "float_of_int 0 = Inr (Fin 0)" by (simp add: float_of_int_def round_double_def)
  from r eps have "\<bar>0 + r0\<bar> \<le> 8" by simp
  from round_double_err [OF this] obtain s1 where
    s1: "round_double (0 + r0) = Fin s1" "\<bar>s1 - (0 + r0)\<bar> \<le> eps" unfolding eps_def by blast
  from r eps s1 have "\<bar>s1 + r1\<bar> \<le> 8" by linarith
  from round_double_err [OF this] obtain s2 where
    s2: "round_double (s1 + r1) = Fin s2" "\<bar>s2 - (s1 + r1)\<bar> \<le> eps" unfolding eps_def by blast
  from r eps s1 s2 have "\<bar>s2 + r2\<bar> \<le> 8" by linarith
  from round_double_err [OF this] obtain s3 where
    s3: "round_double (s2 + r2) = Fin s3" "\<bar>s3 - (s2 + r2)\<bar> \<le> eps" unfolding eps_def by blast
  from r eps s1 s2 s3 have "\<bar>1 + - s3\<bar> \<le> 8" by linarith
  from round_double_err [OF this] obtain c where
    c: "round_double (1 + - s3) = Fin c" "\<bar>c - (1 + - s3)\<bar> \<le> eps" unfolding eps_def by blast
  from t have "tot = PFloat (Fin s3)"
    using s1(1) s2(1) s3(1)
    by (simp add: py_sum_def py_add_def int_of_def float_op_def as_float_def z)
  with p have "p = PFloat (Fin c)"
    using c(1) by (simp add: one_minus_def int_of_def fl_sub_def)
  moreover from s1(2) s2(2) s3(2) c(2) have "\<bar>r1 + r2 + c - (1 - r0)\<bar> \<le> 4 * eps"
    by linarith
  ultimately show ?thesis using eps(3) by simp
qed

text \<open>
  C6 (as amended). Whenever an assignment to \<open>fractions\<close> or to \<open>size_of_generation\<close>
  is accepted, the object then holds \<open>n_elitism = int(fractions[0] * size_of_generation)\<close>,
  \<open>p_mutation = fractions[1]\<close>, \<open>p_crossover = fractions[2]\<close> and
  \<open>p_random = 1 - sum(fractions)\<close>, computed in Python's arithmetic from the values of
  \<open>fractions\<close> and \<open>size_of_generation\<close> that the object then gives: the size is the
  value assigned, the fractions are the floats of the values assigned. For three
  fractions between 0 and 1 and an integer size, the product is the rounded product of
  the first fraction and the float of the size, and the three probabilities sum to
  \<open>1 - fractions[0]\<close> up to the rounding of the three additions and the subtraction
  (at most \<open>2 ^ -48\<close>).
\<close>

theorem ga_options_derived:
  assumes "name = ''fractions'' \<or> name = ''size_of_generation''"
    and "setattr env w name value = (None, w')"
  shows "\<exists>fr sz f0 f1 f2 pr n tot p.
           fst (getattr env w' ''fractions'') = Inr fr \<and>
           fst (getattr env w' ''size_of_generation'') = Inr sz \<and>
           (name = ''size_of_generation'' \<longrightarrow> sz = value) \<and>
           (name = ''fractions'' \<longrightarrow>
              (if we_check env name value then float_list env value = Some fr else fr = value)) \<and>
           py_item fr 0 = Inr f0 \<and> py_item fr 1 = Inr f1 \<and> py_item fr 2 = Inr f2 \<and>
           py_mul f0 sz = Inr pr \<and> py_int env pr = Inr n \<and>
           py_sum fr = Inr tot \<and> one_minus tot = Inr p \<and>
           attrs w' ''n_elitism'' = Some n \<and> attrs w' ''p_mutation'' = Some f1 \<and>
           attrs w' ''p_crossover'' = Some f2 \<and> attrs w' ''p_random'' = Some p \<and>
           (\<forall>r0 r1 r2 k.
              fr = PList [PFloat (Fin r0), PFloat (Fin r1), PFloat (Fin r2)] \<and> sz = PInt k \<and>
              0 \<le> r0 \<and> r0 \<le> 1 \<and> 0 \<le> r1 \<and> r1 \<le> 1 \<and> 0 \<le> r2 \<and> r2 \<le> 1 \<longrightarrow>
              (\<exists>kd z c. round_double (real_of_int k) = Fin kd \<and>
                 round_double (r0 * kd) = Fin z \<and> n = PInt (trunc z) \<and>
                 f1 = PFloat (Fin r1) \<and> f2 = PFloat (Fin r2) \<and> p = PFloat (Fin c) \<and>
                 \<bar>r1 + r2 + c - (1 - r0)\<bar> \<le> 1 / 2 ^ 48))"
proof -
  from ga_assignment_derives [OF assms] obtain w2 v2 where
    d: "derive_ga_options (getattr env) env w2 = Inr w'"
    and a2: "attrs w2 name = Some v2"
    and v2: "if name = ''fractions'' \<and> we_check env name value
             then float_list env value = Some v2 else v2 = value"
    by blast
  from derive_ga_options_result [OF d] obtain fr sz f0 f1 f2 pr n tot p where
    fr: "getattr_plain env w2 ''fractions'' = Inr fr"
    and sz: "getattr_plain env w2 ''size_of_generation'' = Inr sz"
    and items: "py_item fr 0 = Inr f0" "py_item fr 1 = Inr f1" "py_item fr 2 = Inr f2"
    and n: "py_mul f0 sz = Inr pr" "py_int env pr = Inr n"
    and p: "py_sum fr = Inr tot" "one_minus tot = Inr p"
    and w': "w' = store ''p_random'' p (store ''p_crossover'' f2 (store ''p_mutation'' f1
                  (store ''n_elitism'' n w2)))"
    by blast
  have g1: "fst (getattr env w' ''fractions'') = Inr fr"
    using fr by (simp add: getattr_ga_names w' getattr_plain_store)
  have g2: "fst (getattr env w' ''size_of_generation'') = Inr sz"
    using sz by (simp add: getattr_ga_names w' getattr_plain_store)
  have l1: "name = ''size_of_generation'' \<longrightarrow> sz = value"
    using a2 v2 sz by (auto simp: getattr_plain_def)
  have l2: "name = ''fractions'' \<longrightarrow>
              (if we_check env name value then float_list env value = Some fr else fr = value)"
    using a2 v2 fr by (auto simp: getattr_plain_def)
  have st: "attrs w' ''n_elitism'' = Some n" "attrs w' ''p_mutation'' = Some f1"
    "attrs w' ''p_crossover'' = Some f2" "attrs w' ''p_random'' = Some p"
    by (simp_all add: w' store_def)
  have typed: "\<forall>r0 r1 r2 k.
              fr = PList [PFloat (Fin r0), PFloat (Fin r1), PFloat (Fin r2)] \<and> sz = PInt k \<and>
              0 \<le> r0 \<and> r0 \<le> 1 \<and> 0 \<le> r1 \<and> r1 \<le> 1 \<and> 0 \<le> r2 \<and> r2 \<le> 1 \<longrightarrow>
              (\<exists>kd z c. round_double (real_of_int k) = Fin kd \<and>
                 round_double (r0 * kd) = Fin z \<and> n = PInt (trunc z) \<and>
                 f1 = PFloat (Fin r1) \<and> f2 = PFloat (Fin r2) \<and> p = PFloat (Fin c) \<and>
                 \<bar>r1 + r2 + c - (1 - r0)\<bar> \<le> 1 / 2 ^ 48)"
  proof (intro allI impI)
    fix r0 r1 r2 k
    assume a: "fr = PList [PFloat (Fin r0), PFloat (Fin r1), PFloat (Fin r2)] \<and> sz = PInt k \<and>
              0 \<le> r0 \<and> r0 \<le> 1 \<and> 0 \<le> r1 \<and> r1 \<le> 1 \<and> 0 \<le> r2 \<and> r2 \<le> 1"
    with items have f: "f0 = PFloat (Fin r0)" "f1 = PFloat (Fin r1)" "f2 = PFloat (Fin r2)"
      by (simp_all add: py_item_def index_def)
    from a f n have "py_mul (PFloat (Fin r0)) (PInt k) = Inr pr" by simp
    from elitism_value [OF this n(2)] obtain kd z where
      e: "round_double (real_of_int k) = Fin kd" "round_double (r0 * kd) = Fin z"
         "n = PInt (trunc z)" by blast
    from a p have "py_sum (PList [PFloat (Fin r0), PFloat (Fin r1), PFloat (Fin r2)]) = Inr tot"
      by simp
    from random_value [OF _ _ _ _ _ _ this p(2)] a obtain c where
      c: "p = PFloat (Fin c)" "\<bar>r1 + r2 + c - (1 - r0)\<bar> \<le> 1 / 2 ^ 48" by blast
    from e f c
    show "\<exists>kd z c. round_double (real_of_int k) = Fin kd \<and>
                 round_double (r0 * kd) = Fin z \<and> n = PInt (trunc z) \<and>
                 f1 = PFloat (Fin r1) \<and> f2 = PFloat (Fin r2) \<and> p = PFloat (Fin c) \<and>
                 \<bar>r1 + r2 + c - (1 - r0)\<bar> \<le> 1 / 2 ^ 48"
      by blast
  qed
  show ?thesis
    by (rule exI [of _ fr], rule exI [of _ sz], rule exI [of _ f0], rule exI [of _ f1],
        rule exI [of _ f2], rule exI [of _ pr], rule exI [of _ n], rule exI [of _ tot],
        rule exI [of _ p])
       (intro conjI g1 g2 l1 l2 items n p st typed)
qed

text \<open>
  The product of the example of rounding, in the arithmetic of block 3.7:
  \<open>int(0.29 * 100)\<close> is 28.
\<close>

lemma elitism_rounded:
  "py_mul (PFloat (round_double (29 / 100))) (PInt 100) = Inr (PFloat (Fin (29 - 1 / 2 ^ 48)))"
  "py_int env (PFloat (Fin (29 - 1 / 2 ^ 48))) = Inr (PInt 28)"
proof -
  have "trunc (29 - 1 / 2 ^ 48) = 28" by (simp add: trunc_def)
  then show "py_int env (PFloat (Fin (29 - 1 / 2 ^ 48))) = Inr (PInt 28)"
    by (simp add: py_int_def)
  show "py_mul (PFloat (round_double (29 / 100))) (PInt 100)
          = Inr (PFloat (Fin (29 - 1 / 2 ^ 48)))"
    using round_double_example(2)
    by (simp add: round_double_example(1) py_mul_def int_of_def float_op_def as_float_def
        float_of_int_def round_double_values)
qed

text \<open>Two assignments run on the concrete environment.\<close>

lemma fractions_example:
  "setattr env0 world0 ''fractions''
       (PList [PFloat (Fin (1 / 2)), PFloat (Fin (1 / 4)), PFloat (Fin (1 / 4))])
     = (None,
        store ''p_random'' (PFloat (Fin 0)) (store ''p_crossover'' (PFloat (Fin (1 / 4)))
          (store ''p_mutation'' (PFloat (Fin (1 / 4))) (store ''n_elitism'' (PInt 5)
             (store ''fractions''
                (PList [PFloat (Fin (1 / 2)), PFloat (Fin (1 / 4)), PFloat (Fin (1 / 4))])
                world0)))))"
  by (simp add: setattr_def setattr_gen_def ga_names_recognized fractions_phases Let_def
      we_check_def env0_def check_float_list_def probs_list_attrs_def is_seq_def elems_def
      py_float_def py_cmp_def derive_ga_options_def getattr_ga_names getattr_plain_def
      store_def py_item_def index_def py_mul_def int_of_def py_int_def trunc_def py_sum_def
      py_add_def one_minus_def world0_def float_op_def as_float_def float_of_int_def
      fl_sub_def round_double_values)

lemma size_example:
  "setattr env0 world0 ''size_of_generation'' (PInt 20)
     = (None,
        store ''p_random'' (PFloat (Fin 0)) (store ''p_crossover'' (PFloat (Fin (3 / 8)))
          (store ''p_mutation'' (PFloat (Fin (3 / 8))) (store ''n_elitism'' (PInt 5)
             (store ''size_of_generation'' (PInt 20) world0)))))"
  by (simp add: setattr_def setattr_gen_def ga_names_recognized size_phases Let_def
      we_check_def env0_def check_int_def int_attrs_def is_int_def
      py_cmp_def derive_ga_options_def getattr_ga_names getattr_plain_def
      store_def py_item_def index_def py_mul_def int_of_def py_int_def trunc_def py_sum_def
      py_add_def one_minus_def world0_def float_op_def as_float_def float_of_int_def
      fl_sub_def round_double_values)

text \<open>
  C6 as stated fails in its last part: with \<open>fractions = [0.5, 0.25, 0.25]\<close>, whose
  entries lie between 0 and 1, the assignment is accepted and sets \<open>p_mutation = 0.25\<close>,
  \<open>p_crossover = 0.25\<close> and \<open>p_random = 0.0\<close>, which sum to 0.5, not to 1.
\<close>

theorem ga_fractions_sum_counterexample:
  "fst (setattr env0 world0 ''fractions''
          (PList [PFloat (Fin (1 / 2)), PFloat (Fin (1 / 4)), PFloat (Fin (1 / 4))])) = None \<and>
   attrs (snd (setattr env0 world0 ''fractions''
                 (PList [PFloat (Fin (1 / 2)), PFloat (Fin (1 / 4)), PFloat (Fin (1 / 4))])))
     ''p_mutation'' = Some (PFloat (Fin (1 / 4))) \<and>
   attrs (snd (setattr env0 world0 ''fractions''
                 (PList [PFloat (Fin (1 / 2)), PFloat (Fin (1 / 4)), PFloat (Fin (1 / 4))])))
     ''p_crossover'' = Some (PFloat (Fin (1 / 4))) \<and>
   attrs (snd (setattr env0 world0 ''fractions''
                 (PList [PFloat (Fin (1 / 2)), PFloat (Fin (1 / 4)), PFloat (Fin (1 / 4))])))
     ''p_random'' = Some (PFloat (Fin 0)) \<and>
   (1 / 4 + 1 / 4 + 0 :: real) = 1 / 2 \<and> \<bar>(1 / 4 + 1 / 4 + 0 :: real) - 1\<bar> = 1 / 2"
  by (simp add: fractions_example store_def)

text \<open>
  The theorem at \<open>fractions = [0.5, 0.25, 0.25]\<close> with the default size 10, and at
  \<open>size_of_generation = 20\<close> with the default fractions \<open>[0.25, 0.375, 0.375]\<close>.
\<close>

theorem ga_options_derived_witness:
  "(\<exists>w' c. setattr env0 world0 ''fractions''
            (PList [PFloat (Fin (1 / 2)), PFloat (Fin (1 / 4)), PFloat (Fin (1 / 4))])
              = (None, w') \<and>
      attrs w' ''n_elitism'' = Some (PInt 5) \<and>
      attrs w' ''p_mutation'' = Some (PFloat (Fin (1 / 4))) \<and>
      attrs w' ''p_crossover'' = Some (PFloat (Fin (1 / 4))) \<and>
      attrs w' ''p_random'' = Some (PFloat (Fin c)) \<and> \<bar>c\<bar> \<le> 1 / 2 ^ 48) \<and>
   (\<exists>w' c. setattr env0 world0 ''size_of_generation'' (PInt 20) = (None, w') \<and>
      attrs w' ''n_elitism'' = Some (PInt 5) \<and>
      attrs w' ''p_mutation'' = Some (PFloat (Fin (3 / 8))) \<and>
      attrs w' ''p_crossover'' = Some (PFloat (Fin (3 / 8))) \<and>
      attrs w' ''p_random'' = Some (PFloat (Fin c)) \<and> \<bar>c\<bar> \<le> 1 / 2 ^ 48)"
proof -
  let ?v = "PList [PFloat (Fin (1 / 2)), PFloat (Fin (1 / 4)), PFloat (Fin (1 / 4))]"
  obtain w1 where s1: "setattr env0 world0 ''fractions'' ?v = (None, w1)"
    and z1: "fst (getattr env0 w1 ''size_of_generation'') = Inr (PInt 10)"
    using fractions_example
    by (simp add: getattr_ga_names getattr_plain_def store_def env0_def world0_def)
  have fl1: "float_list env0 ?v = Some ?v"
    by (simp add: float_list_def is_seq_def elems_def py_float_def)
  have chk1: "we_check env0 ''fractions'' ?v" by (simp add: we_check_def env0_def)
  from ga_options_derived [OF disjI1 [OF refl] s1] obtain fr sz n a b p where
    g: "fst (getattr env0 w1 ''size_of_generation'') = Inr sz"
       "if we_check env0 ''fractions'' ?v then float_list env0 ?v = Some fr else fr = ?v"
    and st: "attrs w1 ''n_elitism'' = Some n" "attrs w1 ''p_mutation'' = Some a"
       "attrs w1 ''p_crossover'' = Some b" "attrs w1 ''p_random'' = Some p"
    and t0: "\<forall>r0 r1 r2 k.
              fr = PList [PFloat (Fin r0), PFloat (Fin r1), PFloat (Fin r2)] \<and> sz = PInt k \<and>
              0 \<le> r0 \<and> r0 \<le> 1 \<and> 0 \<le> r1 \<and> r1 \<le> 1 \<and> 0 \<le> r2 \<and> r2 \<le> 1 \<longrightarrow>
              (\<exists>kd z c. round_double (real_of_int k) = Fin kd \<and>
                 round_double (r0 * kd) = Fin z \<and> n = PInt (trunc z) \<and>
                 a = PFloat (Fin r1) \<and> b = PFloat (Fin r2) \<and> p = PFloat (Fin c) \<and>
                 \<bar>r1 + r2 + c - (1 - r0)\<bar> \<le> 1 / 2 ^ 48)"
    by auto
  from g z1 fl1 chk1 have "fr = ?v" "sz = PInt 10" by simp_all
  with t0 [rule_format, of "1 / 2" "1 / 4" "1 / 4" 10] obtain c where
    "n = PInt 5" "a = PFloat (Fin (1 / 4))" "b = PFloat (Fin (1 / 4))" "p = PFloat (Fin c)"
    "\<bar>c\<bar> \<le> 1 / 2 ^ 48"
    by (auto simp: round_double_values trunc_def)
  with st s1 have r1: "\<exists>w' c. setattr env0 world0 ''fractions'' ?v = (None, w') \<and>
      attrs w' ''n_elitism'' = Some (PInt 5) \<and>
      attrs w' ''p_mutation'' = Some (PFloat (Fin (1 / 4))) \<and>
      attrs w' ''p_crossover'' = Some (PFloat (Fin (1 / 4))) \<and>
      attrs w' ''p_random'' = Some (PFloat (Fin c)) \<and> \<bar>c\<bar> \<le> 1 / 2 ^ 48"
    by (intro exI [of _ w1] exI [of _ c]) simp
  let ?d = "PList [PFloat (Fin (1 / 4)), PFloat (Fin (3 / 8)), PFloat (Fin (3 / 8))]"
  obtain w2 where s2: "setattr env0 world0 ''size_of_generation'' (PInt 20) = (None, w2)"
    and f2: "fst (getattr env0 w2 ''fractions'') = Inr ?d"
    using size_example
    by (simp add: getattr_ga_names getattr_plain_def store_def env0_def world0_def)
  from ga_options_derived [OF disjI2 [OF refl] s2] obtain fr' sz' n' a' b' p' where
    g': "fst (getattr env0 w2 ''fractions'') = Inr fr'" "sz' = PInt 20"
    and st': "attrs w2 ''n_elitism'' = Some n'" "attrs w2 ''p_mutation'' = Some a'"
       "attrs w2 ''p_crossover'' = Some b'" "attrs w2 ''p_random'' = Some p'"
    and t'0: "\<forall>r0 r1 r2 k.
              fr' = PList [PFloat (Fin r0), PFloat (Fin r1), PFloat (Fin r2)] \<and> sz' = PInt k \<and>
              0 \<le> r0 \<and> r0 \<le> 1 \<and> 0 \<le> r1 \<and> r1 \<le> 1 \<and> 0 \<le> r2 \<and> r2 \<le> 1 \<longrightarrow>
              (\<exists>kd z c. round_double (real_of_int k) = Fin kd \<and>
                 round_double (r0 * kd) = Fin z \<and> n' = PInt (trunc z) \<and>
                 a' = PFloat (Fin r1) \<and> b' = PFloat (Fin r2) \<and> p' = PFloat (Fin c) \<and>
                 \<bar>r1 + r2 + c - (1 - r0)\<bar> \<le> 1 / 2 ^ 48)"
    by auto
  from g' f2 have "fr' = ?d" by simp
  with t'0 [rule_format, of "1 / 4" "3 / 8" "3 / 8" 20] g'(2) obtain c' where
    "n' = PInt 5" "a' = PFloat (Fin (3 / 8))" "b' = PFloat (Fin (3 / 8))" "p' = PFloat (Fin c')"
    "\<bar>c'\<bar> \<le> 1 / 2 ^ 48"
    by (auto simp: round_double_values trunc_def)
  with st' s2 have r2: "\<exists>w' c. setattr env0 world0 ''size_of_generation'' (PInt 20) = (None, w') \<and>
      attrs w' ''n_elitism'' = Some (PInt 5) \<and>
      attrs w' ''p_mutation'' = Some (PFloat (Fin (3 / 8))) \<and>
      attrs w' ''p_crossover'' = Some (PFloat (Fin (3 / 8))) \<and>
      attrs w' ''p_random'' = Some (PFloat (Fin c)) \<and> \<bar>c\<bar> \<le> 1 / 2 ^ 48"
    by (intro exI [of _ w2] exI [of _ c']) simp
  from r1 r2 show ?thesis by (rule conjI)
qed
subsection \<open>The setter inside the getter\<close>

text \<open>
  For the three names that \<open>__getattr__\<close> assigns, \<open>__setattr__\<close> reads no attribute:
  it is the same function whatever getter it is given.
\<close>

lemma nested_phases:
  assumes "name = ''parameter_identifiers'' \<or> name = ''lower_bound'' \<or> name = ''upper_bound''"
  shows "check_equal_len G name chk w v = Inr (w, v)"
    and "dependents G env name w v = Inr (w, v)"
    and "warn_bounds G name w v = Inr (w, v)"
    and "warn_structure G name w v = Inr (w, v)"
proof -
  from assms show "check_equal_len G name chk w v = Inr (w, v)"
    by (elim disjE) (simp_all add: check_equal_len_def attrs_with_equal_len_def bounds_attrs_def)
  from assms show "dependents G env name w v = Inr (w, v)"
    by (elim disjE) (simp_all add: dependents_def data_holder_attrs_def bounds_attrs_def)
  from assms show "warn_bounds G name w v = Inr (w, v)"
    by (elim disjE) (simp_all add: warn_bounds_def bounds_attrs_def)
  from assms show "warn_structure G name w v = Inr (w, v)"
    by (elim disjE) (simp_all add: warn_structure_def)
qed

lemma setattr_nested_exact:
  assumes "name = ''parameter_identifiers'' \<or> name = ''lower_bound'' \<or> name = ''upper_bound''"
  shows "setattr_gen G env w name value = setattr_nested env w name value"
proof -
  have e: "check_equal_len G' name chk = (\<lambda>w v. Inr (w, v))"
    "dependents G' env name = (\<lambda>w v. Inr (w, v))"
    "warn_bounds G' name = (\<lambda>w v. Inr (w, v))"
    "warn_structure G' name = (\<lambda>w v. Inr (w, v))" for G' chk
    by (intro ext, simp add: nested_phases [OF assms])+
  show ?thesis unfolding setattr_nested_def setattr_gen_def e by (rule refl)
qed

subsection \<open>What an assignment leaves on the object\<close>









text \<open>Reading an attribute and going on: the state evolves when each part lets it.\<close>

lemma left_world_simps [simp]:
  "left_world (Inl (e, w)) = w" "left_world (Inr w) = w"
  by (simp_all add: left_world_def)

lemma phase_world_simps [simp]:
  "phase_world (Inl (e, w)) = w" "phase_world (Inr (w, v)) = w"
  by (simp_all add: phase_world_def)














text \<open>Each block of \<open>__setattr__\<close> stores only the name assigned and the names derived from it.\<close>

lemma evolves_same_attrs: "attrs w' = attrs w \<Longrightarrow> evolves K w w'"
  by (simp add: evolves_def)













































section \<open>Properties of the optimizers and of the run coordinator\<close>

subsection \<open>The order of the mode and the best so far\<close>






lemma best_of_Nil [simp]: "best_of mx [] b = b"
  by (simp add: best_of_def)









lemma ga_trace_stop:
  "\<not> (generation s < maxiter \<and> stuck s < stuck_limit cfg) \<Longrightarrow> ga_trace cfg ops f maxiter s = []"
  by (subst ga_trace.simps) simp


lemma ga_final_stop:
  "\<not> (generation s < maxiter \<and> stuck s < stuck_limit cfg) \<Longrightarrow> ga_final cfg ops f maxiter s = s"
  by (simp add: ga_final_def ga_trace_stop)











lemma sorted_population_set [simp]: "set (sorted_population mx pop) = set pop"
  by (simp add: sorted_population_def)














































subsection \<open>The concrete runs\<close>





















subsection \<open>The properties claimed of the optimizers\<close>













end
